theory Spec2Isabelle
  imports Complex_Main
begin

section \<open>Entities (land\_analysis/models.py)\<close>

text \<open>
  A \<open>DecimalField\<close> holds an exact decimal fraction; it is modelled as a rational number,
  so sums and comparisons are exact.  A quotient that Python takes of two \<open>Decimal\<close>
  values is kept exact, where \<open>Decimal\<close> rounds it to 28 significant digits; what the
  database computes by averaging, dividing and multiplying is not taken to be exact, see
  \<open>backend\<close> below.

  Every foreign key of models.py is \<open>NOT NULL\<close> with \<open>on_delete=CASCADE\<close>: the row it
  points to always exists.  The model therefore keeps the referenced row inside the
  referring one, and \<open>parcel.land_holder.region\<close> is \<open>region (land_holder parcel)\<close>.
  Only the columns that the modelled functions read are kept.
\<close>

type_synonym decimal = rat

record Region =
  region_pk :: int
  region_name :: string
  region_code :: string
  region_total_area :: decimal

record LandHolder =
  holder_pk :: int
  holder_name :: string
  ownership_type :: string
  region :: Region

record LandParcel =
  parcel_pk :: int
  land_holder :: LandHolder
  parcel_id :: string
  total_area :: decimal
  cultivated_area :: decimal
  soil_type :: string

record IrrigationSystem =
  irrigation_pk :: int
  irrigation_land_parcel :: LandParcel
  system_type :: string
  water_source :: string
  efficiency_rating :: int
  annual_water_usage :: decimal
  is_automated :: bool

record Crop =
  crop_pk :: int
  crop_name :: string
  crop_type :: string

record CroppingPattern =
  pattern_pk :: int
  pattern_land_parcel :: LandParcel
  crop :: Crop
  year :: int
  season :: string
  area_allocated :: decimal
  yield_amount :: decimal
  revenue :: decimal

text \<open>
  The entity store: one table per model, each as the list of its rows in the order in
  which the database returns them.
\<close>

record store =
  Region_objects :: "Region list"
  LandHolder_objects :: "LandHolder list"
  LandParcel_objects :: "LandParcel list"
  IrrigationSystem_objects :: "IrrigationSystem list"
  Crop_objects :: "Crop list"
  CroppingPattern_objects :: "CroppingPattern list"

definition empty_store :: store where
  "empty_store =
     \<lparr>Region_objects = [], LandHolder_objects = [], LandParcel_objects = [],
      IrrigationSystem_objects = [], Crop_objects = [], CroppingPattern_objects = []\<rparr>"


section \<open>Python values\<close>

text \<open>
  A text that Python would print is kept as its pieces, where printing needs more than
  the bytes of the source: \<open>Fmt spec x\<close> is the number \<open>x\<close> printed with the format
  specification \<open>spec\<close> (\<open>[]\<close> for \<open>str\<close>), \<open>Titled t\<close> is \<open>t.title()\<close>, and
  \<open>Repr t\<close> is \<open>repr(t)\<close>.  Printing digits, casing letters of any alphabet and
  escaping are Python's work and are not modelled.
\<close>

datatype fragment = Lit string | Fmt string decimal | Titled string | Repr string

datatype pyval =
    PNone
  | PNum decimal
  | PStr string
  | PText "fragment list"
  | PModel string int
  | PList "pyval list"
  | PDict "(string \<times> pyval) list"

text \<open>A dictionary with string keys, in insertion order.\<close>

type_synonym row = "(string \<times> pyval) list"

text \<open>
  The exceptions that the modelled code can meet.  \<open>ReportLabError m\<close> is an exception
  of ReportLab whose text is \<open>m\<close>; \<open>BadHeaderError v\<close> is what Django raises when the
  value \<open>v\<close> of a response header holds a line break.
\<close>

datatype exn =
    DivisionByZero
  | InvalidOperation
  | ValueError string
  | Http404 string
  | DatabaseError string
  | BadHeaderError string
  | ReportLabError string

fun str_exn :: "exn \<Rightarrow> fragment list" where
  "str_exn DivisionByZero = [Lit ''[<class 'decimal.DivisionByZero'>]'']"
| "str_exn InvalidOperation = [Lit ''[<class 'decimal.DivisionUndefined'>]'']"
| "str_exn (ValueError m) = [Lit m]"
| "str_exn (Http404 m) = [Lit m]"
| "str_exn (DatabaseError m) = [Lit m]"
| "str_exn (BadHeaderError v) = [Lit ''Header values can't contain newlines (got '', Repr v, Lit '')'']"
| "str_exn (ReportLabError m) = [Lit m]"

text \<open>\<open>row[key]\<close> read as a number; \<open>None\<close> and a missing key count as 0.\<close>

definition get_num :: "row \<Rightarrow> string \<Rightarrow> decimal" where
  "get_num r k = (case map_of r k of Some (PNum x) \<Rightarrow> x | _ \<Rightarrow> 0)"

text \<open>\<open>value or 0\<close> for the result of an aggregate.\<close>

fun or_0 :: "pyval \<Rightarrow> decimal" where
  "or_0 (PNum x) = x"
| "or_0 _ = 0"


section \<open>The object-relational mapper\<close>

text \<open>
  \<open>Count\<close> and \<open>Sum\<close> over the rows of a query: a sum over no rows is \<open>None\<close> (SQL
  \<open>NULL\<close>), a count is 0.  The sum of a decimal column is taken to be exact: it is exact
  in a database with decimal arithmetic, and in one that adds doubles as long as the
  double rounds back to the exact sum at the digits that Python reads.
\<close>

definition Count :: "'a list \<Rightarrow> pyval" where
  "Count xs = PNum (of_nat (length xs))"

definition Sum :: "('a \<Rightarrow> decimal) \<Rightarrow> 'a list \<Rightarrow> pyval" where
  "Sum f xs = (if xs = [] then PNone else PNum (sum_list (map f xs)))"

text \<open>
  An average and an arithmetic expression over averages are computed by the database,
  in its own rounded arithmetic: doubles on SQLite, which Django reads at 15 significant
  digits, and decimals of a bounded scale on PostgreSQL.  What the database computes is
  a parameter of the model:
  \<^item> \<open>db_avg b vs\<close> is the value it holds for \<open>AVG\<close> over the column \<open>vs\<close>, which is
    not empty;
  \<^item> \<open>db_div b x y\<close> and \<open>db_times b x y\<close> are the values it holds for the quotient and
    the product of two values that it holds, \<open>y\<close> not 0 in the quotient;
  \<^item> \<open>db_read b x\<close> is the number that Python receives for a value that it holds;
  \<^item> \<open>null_on_zero_division b\<close> says whether a division by zero gives \<open>NULL\<close> (SQLite,
    MySQL) or an error (PostgreSQL).
  None of the four functions need be exact.
\<close>

record backend =
  null_on_zero_division :: bool
  db_avg :: "decimal list \<Rightarrow> decimal"
  db_div :: "decimal \<Rightarrow> decimal \<Rightarrow> decimal"
  db_times :: "decimal \<Rightarrow> decimal \<Rightarrow> decimal"
  db_read :: "decimal \<Rightarrow> decimal"

text \<open>\<open>Avg\<close> inside the database, \<open>None\<close> for \<open>NULL\<close> over no rows, and as Python reads it.\<close>

definition avg_value :: "backend \<Rightarrow> ('a \<Rightarrow> decimal) \<Rightarrow> 'a list \<Rightarrow> decimal option" where
  "avg_value b f xs = (if xs = [] then None else Some (db_avg b (map f xs)))"

fun read_value :: "backend \<Rightarrow> decimal option \<Rightarrow> pyval" where
  "read_value b None = PNone"
| "read_value b (Some x) = PNum (db_read b x)"

definition Avg :: "backend \<Rightarrow> ('a \<Rightarrow> decimal) \<Rightarrow> 'a list \<Rightarrow> pyval" where
  "Avg b f xs = read_value b (avg_value b f xs)"

text \<open>
  \<open>values(key).annotate(...)\<close> is \<open>GROUP BY key\<close>: one group for each distinct key,
  holding the rows with that key.  SQL fixes no order of the groups; the model lists them
  by the first row of each.
\<close>

function group_by :: "('a \<Rightarrow> 'k) \<Rightarrow> 'a list \<Rightarrow> ('k \<times> 'a list) list" where
  "group_by key [] = []"
| "group_by key (x # xs) =
     (key x, x # filter (\<lambda>y. key y = key x) xs)
       # group_by key (filter (\<lambda>y. key y \<noteq> key x) xs)"
  by pat_completeness auto
termination
  by (relation "measure (\<lambda>(key, xs). length xs)") (auto simp: less_Suc_eq_le)

text \<open>\<open>order_by('-field')\<close> and \<open>order_by('field')\<close> on a numeric key.\<close>

definition order_by_desc :: "('a \<Rightarrow> decimal) \<Rightarrow> 'a list \<Rightarrow> 'a list" where
  "order_by_desc f xs = sort_key (\<lambda>x. - f x) xs"

definition order_by_asc :: "('a \<Rightarrow> int) \<Rightarrow> 'a list \<Rightarrow> 'a list" where
  "order_by_asc f xs = sort_key f xs"

text \<open>
  Division and multiplication inside the database, on values that it holds: \<open>NULL\<close>
  propagates, and a division by zero gives \<open>NULL\<close> or an error, as the backend has it.
\<close>

fun sql_div :: "backend \<Rightarrow> decimal option \<Rightarrow> decimal option \<Rightarrow> exn + decimal option" where
  "sql_div b (Some x) (Some y) =
     (if y = 0 then
        (if null_on_zero_division b then Inr None else Inl (DatabaseError ''division by zero''))
      else Inr (Some (db_div b x y)))"
| "sql_div b _ _ = Inr None"

fun sql_times :: "backend \<Rightarrow> decimal option \<Rightarrow> decimal \<Rightarrow> decimal option" where
  "sql_times b (Some x) c = Some (db_times b x c)"
| "sql_times b None c = None"


section \<open>Data frames and CSV files (pandas)\<close>

text \<open>
  \<open>pandas.DataFrame(records)\<close> takes its columns from the keys of the records, in the
  order in which they first occur: a frame built from no records has no columns.
  \<open>to_csv(index=False)\<close> writes the header row, the column names, and then one row for
  each record.  A CSV file is modelled as the list of its rows, each the list of its
  cells; quoting is not modelled.
\<close>

record DataFrame =
  columns :: "string list"
  records :: "row list"

definition DataFrame_of_records :: "row list \<Rightarrow> DataFrame" where
  "DataFrame_of_records rs = \<lparr>columns = rev (remdups (rev (concat (map (map fst) rs)))), records = rs\<rparr>"

text \<open>\<open>pandas.DataFrame(dict)\<close> for a dictionary of equally long columns.\<close>

definition DataFrame_of_columns :: "(string \<times> pyval list) list \<Rightarrow> DataFrame" where
  "DataFrame_of_columns cs =
     \<lparr>columns = map fst cs,
      records = map (\<lambda>i. map (\<lambda>(c, vs). (c, vs ! i)) cs)
                    [0 ..< (case cs of [] \<Rightarrow> 0 | (c, vs) # _ \<Rightarrow> length vs)]\<rparr>"

definition cell :: "row \<Rightarrow> string \<Rightarrow> pyval" where
  "cell r c = (case map_of r c of Some v \<Rightarrow> v | None \<Rightarrow> PNone)"

definition column :: "row list \<Rightarrow> string \<Rightarrow> pyval list" where
  "column rs c = map (\<lambda>r. cell r c) rs"

definition to_csv :: "DataFrame \<Rightarrow> pyval list list" where
  "to_csv df = map PStr (columns df) # map (\<lambda>r. map (cell r) (columns df)) (records df)"


section \<open>Charts and utilisation (land\_analysis/utils.py)\<close>

text \<open>
  A chart is kept as what is drawn, its title and the two data series, where the source
  keeps the PNG picture of it.  The drawing calls of matplotlib and seaborn are taken to
  succeed.
\<close>

datatype chart =
    PieChart string "pyval list" "pyval list"
  | BarChart string "pyval list" "pyval list"
  | LineChart string "pyval list" "pyval list"

text \<open>
  The columns of the frames hold \<open>Decimal\<close> objects, so \<open>/\<close> on two columns divides
  element by element with \<open>Decimal.__truediv__\<close>, which raises on a zero divisor
  (\<open>DivisionByZero\<close>, or \<open>InvalidOperation\<close> for 0 / 0); pandas skips an element that is
  \<open>None\<close>.
\<close>

fun decimal_truediv :: "pyval \<Rightarrow> pyval \<Rightarrow> exn + pyval" where
  "decimal_truediv (PNum a) (PNum b) =
     (if b = 0 then Inl (if a = 0 then InvalidOperation else DivisionByZero)
      else Inr (PNum (a / b)))"
| "decimal_truediv _ _ = Inr PNone"

fun series_truediv :: "pyval list \<Rightarrow> pyval list \<Rightarrow> exn + pyval list" where
  "series_truediv (a # as) (b # bs) =
     (case decimal_truediv a b of
        Inl e \<Rightarrow> Inl e
      | Inr q \<Rightarrow> (case series_truediv as bs of Inl e \<Rightarrow> Inl e | Inr qs \<Rightarrow> Inr (q # qs)))"
| "series_truediv _ _ = Inr []"

text \<open>\<open>(series > 0).any()\<close>\<close>

fun gt_0 :: "pyval \<Rightarrow> bool" where
  "gt_0 (PNum a) = (0 < a)"
| "gt_0 _ = False"

text \<open>Chart 1: land distribution by soil type.\<close>

definition soil_data :: "LandParcel list \<Rightarrow> row list" where
  "soil_data ps =
     map (\<lambda>(k, g). [(''soil_type'', PStr k), (''count'', Count g), (''total_area'', Sum total_area g)])
       (group_by soil_type ps)"

definition soil_chart :: "store \<Rightarrow> (string \<times> chart) list" where
  "soil_chart st =
     (let df_soil = soil_data (LandParcel_objects st) in
      if df_soil \<noteq> [] then
        [(''soil_distribution'',
          PieChart ''Land Distribution by Soil Type''
            (column df_soil ''soil_type'') (column df_soil ''total_area''))]
      else [])"

text \<open>Chart 2: irrigation system distribution.\<close>

definition irrigation_data :: "IrrigationSystem list \<Rightarrow> row list" where
  "irrigation_data xs =
     map (\<lambda>(k, g). [(''system_type'', PStr k), (''count'', Count g)]) (group_by system_type xs)"

definition irrigation_chart :: "store \<Rightarrow> (string \<times> chart) list" where
  "irrigation_chart st =
     (let df_irrigation = irrigation_data (IrrigationSystem_objects st) in
      if df_irrigation \<noteq> [] then
        [(''irrigation_distribution'',
          BarChart ''Irrigation System Distribution''
            (column df_irrigation ''system_type'') (column df_irrigation ''count''))]
      else [])"

text \<open>
  Chart 3: crop productivity.  The guard asks whether any group has a positive total
  area, and the division is then made on the whole column.
\<close>

definition crop_data :: "CroppingPattern list \<Rightarrow> row list" where
  "crop_data xs =
     take 10
       (map (\<lambda>(k, g). [(''crop__name'', PStr k), (''total_yield'', Sum yield_amount g),
                        (''total_area'', Sum area_allocated g)])
          (group_by (\<lambda>x. crop_name (crop x)) xs))"

definition crop_productivity :: "row list \<Rightarrow> exn + pyval list" where
  "crop_productivity df_crop =
     series_truediv (column df_crop ''total_yield'') (column df_crop ''total_area'')"

definition crop_chart :: "store \<Rightarrow> exn + (string \<times> chart) list" where
  "crop_chart st =
     (let df_crop = crop_data (CroppingPattern_objects st) in
      if df_crop \<noteq> [] \<and> list_ex gt_0 (column df_crop ''total_area'') then
        (case crop_productivity df_crop of
           Inl e \<Rightarrow> Inl e
         | Inr productivity \<Rightarrow>
             Inr [(''crop_productivity'',
                   BarChart ''Crop Productivity (Yield per Hectare)''
                     (column df_crop ''crop__name'') productivity)])
      else Inr [])"

text \<open>Chart 4: year-wise production trend.\<close>

definition trend_data :: "CroppingPattern list \<Rightarrow> row list" where
  "trend_data xs =
     map (\<lambda>(k, g). [(''year'', PNum (of_int k)), (''total_yield'', Sum yield_amount g)])
       (order_by_asc fst (group_by year xs))"

definition trend_chart :: "store \<Rightarrow> (string \<times> chart) list" where
  "trend_chart st =
     (let df_trend = trend_data (CroppingPattern_objects st) in
      if df_trend \<noteq> [] then
        [(''production_trend'',
          LineChart ''Year-wise Production Trend''
            (column df_trend ''year'') (column df_trend ''total_yield''))]
      else [])"

text \<open>Chart 5: land holding by ownership type.\<close>

definition ownership_data :: "LandParcel list \<Rightarrow> row list" where
  "ownership_data ps =
     map (\<lambda>(k, g). [(''land_holder__ownership_type'', PStr k), (''total_area'', Sum total_area g),
                      (''parcel_count'', Count g)])
       (group_by (\<lambda>p. ownership_type (land_holder p)) ps)"

definition ownership_chart :: "store \<Rightarrow> (string \<times> chart) list" where
  "ownership_chart st =
     (let df_ownership = ownership_data (LandParcel_objects st) in
      if df_ownership \<noteq> [] then
        [(''ownership_distribution'',
          PieChart ''Land Distribution by Ownership Type''
            (column df_ownership ''land_holder__ownership_type'')
            (column df_ownership ''total_area''))]
      else [])"

text \<open>
  The five charts are made in one \<open>try\<close> block, whose handler answers any exception
  with \<open>charts = {}\<close>: an exception in one chart discards the charts made before it.
\<close>

definition generate_land_analysis_charts :: "store \<Rightarrow> (string \<times> chart) list" where
  "generate_land_analysis_charts st =
     (case crop_chart st of
        Inl e \<Rightarrow> []
      | Inr crop_productivity_chart \<Rightarrow>
          soil_chart st @ irrigation_chart st @ crop_productivity_chart
            @ trend_chart st @ ownership_chart st)"

text \<open>
  \<open>calculate_land_utilization_efficiency\<close>: nothing in its \<open>try\<close> block can raise on
  \<open>Decimal\<close> sums, since the division is guarded by \<open>total_land > 0\<close>.
\<close>

definition calculate_land_utilization_efficiency :: "store \<Rightarrow> row" where
  "calculate_land_utilization_efficiency st =
     (let total_land = or_0 (Sum total_area (LandParcel_objects st));
          cultivated_land = or_0 (Sum cultivated_area (LandParcel_objects st));
          utilization_rate = (if total_land > 0 then (cultivated_land / total_land) * 100 else 0)
      in [(''total_land'', PNum total_land),
          (''cultivated_land'', PNum cultivated_land),
          (''utilization_rate'', PNum utilization_rate),
          (''uncultivated_land'', PNum (total_land - cultivated_land))])"


section \<open>Parcel form (land\_analysis/forms.py)\<close>

text \<open>
  \<open>LandParcelForm.clean\<close> reads two entries of \<open>cleaned_data\<close>.  An entry is absent
  (\<open>None\<close> from \<open>get\<close>) when the field was left empty or failed its own validation; both
  fields are required, so the form is then invalid whatever \<open>clean\<close> returns.  The
  fields are \<open>DecimalField\<close>s without a minimum value.
\<close>

record cleaned_data =
  cd_total_area :: "decimal option"
  cd_cultivated_area :: "decimal option"

datatype validation_error = ValidationError "(string \<times> string) list"

text \<open>Truth value of \<open>cleaned_data.get(...)\<close>: \<open>None\<close> and \<open>Decimal('0')\<close> are false.\<close>

fun truthy :: "decimal option \<Rightarrow> bool" where
  "truthy None = False"
| "truthy (Some x) = (x \<noteq> 0)"

definition clean :: "cleaned_data \<Rightarrow> validation_error + cleaned_data" where
  "clean cd =
     (if truthy (cd_total_area cd) \<and> truthy (cd_cultivated_area cd) then
        (if the (cd_cultivated_area cd) > the (cd_total_area cd) then
           Inl (ValidationError
                  [(''cultivated_area'', ''Cultivated area cannot be greater than total area.'')])
         else Inr cd)
      else Inr cd)"

text \<open>
  \<open>is_valid\<close> for the two areas, the other fields taken to be valid: both required
  fields have a value and \<open>clean\<close> raises nothing.
\<close>

definition is_valid :: "cleaned_data \<Rightarrow> bool" where
  "is_valid cd =
     (cd_total_area cd \<noteq> None \<and> cd_cultivated_area cd \<noteq> None \<and> isl (clean cd) = False)"


section \<open>Requests and responses (land\_analysis/views.py)\<close>

datatype style = CustomTitle | CustomHeading | CustomNormal

text \<open>The flowables of a document; the colours and widths of a table are left out.\<close>

datatype flowable =
    Paragraph "fragment list" style
  | Spacer nat nat
  | Table "fragment list list list"

text \<open>
  A view is a function of the site, the entity store together with the flash messages
  queued for the user, that returns the response and the site after the request.
  What a view reads from outside the site is in \<open>env\<close>:
  \<^item> whether the import of ReportLab succeeded;
  \<^item> what ReportLab does with a paragraph whose text comes from the request or the
    store, and with a story that it is asked to build: \<open>None\<close> when it succeeds, the
    text of its exception when it raises (it reads the text of a paragraph as markup
    and refuses a text whose markup is not well formed);
  \<^item> the two renderings of \<open>datetime.datetime.now()\<close> that the reports use,
    \<open>strftime("%B %d, %Y")\<close> and \<open>strftime("%Y%m%d")\<close>;
  \<^item> the database backend.
  The paragraphs whose text is a literal of the source hold no markup and are taken to
  be accepted.
\<close>

type_synonym message = "string \<times> fragment list"

record site =
  db :: store
  messages :: "message list"

record env =
  REPORTLAB_AVAILABLE :: bool
  paragraph_error :: "fragment list \<Rightarrow> string option"
  build_error :: "flowable list \<Rightarrow> string option"
  now_long :: string
  now_compact :: string
  database :: backend

definition messages_error :: "site \<Rightarrow> fragment list \<Rightarrow> site" where
  "messages_error s text = s\<lparr>messages := messages s @ [(''error'', text)]\<rparr>"

text \<open>
  The responses: a JSON response with its status, its data and the name of the
  attachment if there is one; the downloads, each with its file name and its content; a
  redirect to a named URL; a rendered template with its context; and the not-found page
  that the framework makes of an \<open>Http404\<close> which no handler of the view catches.
\<close>

datatype response =
    JsonResponse nat pyval "string option"
  | CsvResponse string "pyval list list"
  | ExcelResponse string DataFrame
  | PdfResponse string "flowable list"
  | Redirect string "int option"
  | Render string row
  | NotFound

definition rows :: "row list \<Rightarrow> pyval" where
  "rows rs = PList (map PDict rs)"

text \<open>
  \<open>response['Content-Disposition'] = f'attachment; filename="{name}"'\<close>: Django
  refuses a header value that holds a carriage return or a line feed.
\<close>

definition has_newline :: "string \<Rightarrow> bool" where
  "has_newline v = (CHR 0x0A \<in> set v \<or> CHR 0x0D \<in> set v)"

definition content_disposition :: "string \<Rightarrow> exn + string" where
  "content_disposition name =
     (let v = ''attachment; filename='' @ [CHR 0x22] @ name @ [CHR 0x22]
      in if has_newline v then Inl (BadHeaderError v) else Inr name)"


subsection \<open>api\_land\_stats\<close>

text \<open>
  The \<open>region\<close> parameter of the query string is a text.  \<open>Missing\<close> is the parameter
  absent or empty, which \<open>if region_id:\<close> skips; \<open>Numeric n\<close> is a text that \<open>int\<close>
  reads as \<open>n\<close>; \<open>Malformed m\<close> is a text that \<open>int\<close> refuses, so that \<open>filter\<close> raises
  a \<open>ValueError\<close> with message \<open>m\<close>.  \<open>soil_type\<close> is compared as a text.
\<close>

datatype query_id = Missing | Numeric int | Malformed string

record stats_query =
  q_region :: query_id
  q_soil_type :: "string option"

definition in_region :: "int \<Rightarrow> LandParcel \<Rightarrow> bool" where
  "in_region n p = (region_pk (region (land_holder p)) = n)"

fun filter_region :: "('a \<Rightarrow> LandParcel) \<Rightarrow> query_id \<Rightarrow> 'a list \<Rightarrow> exn + 'a list" where
  "filter_region parcel_of Missing xs = Inr xs"
| "filter_region parcel_of (Numeric n) xs = Inr (filter (\<lambda>x. in_region n (parcel_of x)) xs)"
| "filter_region parcel_of (Malformed m) xs = Inl (ValueError m)"

fun filter_soil :: "('a \<Rightarrow> LandParcel) \<Rightarrow> string option \<Rightarrow> 'a list \<Rightarrow> 'a list" where
  "filter_soil parcel_of None xs = xs"
| "filter_soil parcel_of (Some t) xs =
     (if t = [] then xs else filter (\<lambda>x. soil_type (parcel_of x) = t) xs)"

text \<open>The parcels that the two filters of the view leave, when the region is not malformed.\<close>

definition scoped_parcels :: "store \<Rightarrow> stats_query \<Rightarrow> exn + LandParcel list" where
  "scoped_parcels st q =
     (case filter_region id (q_region q) (LandParcel_objects st) of
        Inl x \<Rightarrow> Inl x
      | Inr ps \<Rightarrow> Inr (filter_soil id (q_soil_type q) ps))"

definition irrigation_distribution :: "backend \<Rightarrow> IrrigationSystem list \<Rightarrow> row list" where
  "irrigation_distribution b xs =
     map (\<lambda>(k, g). [(''system_type'', PStr k), (''count'', Count g),
                      (''avg_efficiency'', Avg b (\<lambda>x. of_int (efficiency_rating x)) g)])
       (group_by system_type xs)"

definition crop_distribution :: "backend \<Rightarrow> CroppingPattern list \<Rightarrow> row list" where
  "crop_distribution b xs =
     map (\<lambda>(k, g). [(''crop__crop_type'', PStr k), (''total_area'', Sum area_allocated g),
                      (''avg_yield'', Avg b yield_amount g)])
       (group_by (\<lambda>x. crop_type (crop x)) xs)"

definition region_stats :: "LandParcel list \<Rightarrow> row list" where
  "region_stats ps =
     map (\<lambda>(k, g). [(''land_holder__region__name'', PStr k), (''parcel_count'', Count g),
                      (''total_area'', Sum total_area g), (''cultivated_area'', Sum cultivated_area g)])
       (group_by (\<lambda>p. region_name (region (land_holder p))) ps)"

definition error_500 :: "exn \<Rightarrow> response" where
  "error_500 x =
     JsonResponse 500 (PDict [(''status'', PStr ''error''), (''message'', PText (str_exn x))]) None"

text \<open>
  The soil distribution is the query of chart 1, \<open>soil_data\<close>, on the filtered parcels;
  the region statistics are taken over all parcels, whatever the filters.
\<close>

definition api_land_stats :: "env \<Rightarrow> site \<Rightarrow> stats_query \<Rightarrow> response \<times> site" where
  "api_land_stats e s q =
     (case scoped_parcels (db s) q of
        Inl x \<Rightarrow> (error_500 x, s)
      | Inr land_parcels \<Rightarrow>
          (case filter_region irrigation_land_parcel (q_region q) (IrrigationSystem_objects (db s)) of
             Inl x \<Rightarrow> (error_500 x, s)
           | Inr irrigation_in_region \<Rightarrow>
          (case filter_region pattern_land_parcel (q_region q) (CroppingPattern_objects (db s)) of
             Inl x \<Rightarrow> (error_500 x, s)
           | Inr patterns_in_region \<Rightarrow>
               (let irrigation_systems = filter_soil irrigation_land_parcel (q_soil_type q) irrigation_in_region;
                    cropping_patterns = filter_soil pattern_land_parcel (q_soil_type q) patterns_in_region
                in (JsonResponse 200
                      (PDict [(''soil_distribution'', rows (soil_data land_parcels)),
                              (''irrigation_distribution'',
                               rows (irrigation_distribution (database e) irrigation_systems)),
                              (''crop_distribution'', rows (crop_distribution (database e) cropping_patterns)),
                              (''region_stats'', rows (region_stats (LandParcel_objects (db s)))),
                              (''status'', PStr ''success'')])
                      None, s)))))"


subsection \<open>export\_data\<close>

definition land_parcel_values :: "LandParcel \<Rightarrow> row" where
  "land_parcel_values p =
     [(''parcel_id'', PStr (parcel_id p)), (''total_area'', PNum (total_area p)),
      (''cultivated_area'', PNum (cultivated_area p)), (''soil_type'', PStr (soil_type p)),
      (''land_holder__name'', PStr (holder_name (land_holder p))),
      (''land_holder__region__name'', PStr (region_name (region (land_holder p))))]"

definition cropping_pattern_values :: "CroppingPattern \<Rightarrow> row" where
  "cropping_pattern_values x =
     [(''crop__name'', PStr (crop_name (crop x))), (''year'', PNum (of_int (year x))),
      (''season'', PStr (season x)), (''area_allocated'', PNum (area_allocated x)),
      (''yield_amount'', PNum (yield_amount x)), (''revenue'', PNum (revenue x)),
      (''land_parcel__parcel_id'', PStr (parcel_id (pattern_land_parcel x)))]"

definition irrigation_system_values :: "IrrigationSystem \<Rightarrow> row" where
  "irrigation_system_values x =
     [(''system_type'', PStr (system_type x)),
      (''efficiency_rating'', PNum (of_int (efficiency_rating x))),
      (''annual_water_usage'', PNum (annual_water_usage x)),
      (''land_parcel__parcel_id'', PStr (parcel_id (irrigation_land_parcel x)))]"

text \<open>
  \<open>LandHolder.objects.values('ownership_type').annotate(Count('id'), Sum('parcels__total_area'))\<close>
  joins every holder with its parcels, a holder without parcels giving one row with no
  parcel, and groups the joined rows.
\<close>

definition holder_parcels :: "store \<Rightarrow> LandHolder \<Rightarrow> (LandHolder \<times> LandParcel option) list" where
  "holder_parcels st h =
     (let ps = filter (\<lambda>p. holder_pk (land_holder p) = holder_pk h) (LandParcel_objects st)
      in if ps = [] then [(h, None)] else map (\<lambda>p. (h, Some p)) ps)"

definition land_holding :: "store \<Rightarrow> (string \<times> (LandHolder \<times> LandParcel option) list) list" where
  "land_holding st =
     group_by (\<lambda>(h, p). ownership_type h) (concat (map (holder_parcels st) (LandHolder_objects st)))"

definition land_analysis :: "store \<Rightarrow> row list" where
  "land_analysis st =
     map (\<lambda>(k, g). [(''ownership_type'', PStr k), (''count'', Count g),
                      (''total_land'', Sum total_area (List.map_filter snd g))])
       (land_holding st)"

definition crop_totals :: "CroppingPattern list \<Rightarrow> (string \<times> CroppingPattern list) list" where
  "crop_totals xs = group_by (\<lambda>x. crop_name (crop x)) xs"

definition generate_comprehensive_report :: "env \<Rightarrow> site \<Rightarrow> response \<times> site" where
  "generate_comprehensive_report e s =
     (let st = db s in
      (JsonResponse 200
         (PDict
            [(''summary'',
              PDict [(''total_land_holders'', Count (LandHolder_objects st)),
                     (''total_parcels'', Count (LandParcel_objects st)),
                     (''total_cultivated_area'', PNum (or_0 (Sum cultivated_area (LandParcel_objects st)))),
                     (''total_revenue'', PNum (or_0 (Sum revenue (CroppingPattern_objects st))))]),
             (''land_analysis'', rows (land_analysis st)),
             (''crop_analysis'',
              rows (map (\<lambda>(k, g). [(''crop__name'', PStr k), (''total_area'', Sum area_allocated g),
                                     (''total_yield'', Sum yield_amount g),
                                     (''total_revenue'', Sum revenue g)])
                      (crop_totals (CroppingPattern_objects st)))),
             (''irrigation_analysis'',
              rows (irrigation_distribution (database e) (IrrigationSystem_objects st)))])
         (Some ''comprehensive_agricultural_report.json''), s))"

text \<open>
  \<open>fmt\<close> is \<open>request.GET.get('format')\<close>, \<open>None\<close> when the parameter is absent
  (\<open>'json'\<close> is then the default).  The spreadsheet is kept as the frame that
  \<open>to_excel\<close> writes; the writers of pandas and the JSON encoder are taken to succeed,
  and the names of the attachments are literals without a line break, so the handler of
  \<open>export_data\<close> that answers an exception with status 500 is not reached in the model.
\<close>

definition export_response :: "string \<Rightarrow> row list \<Rightarrow> string option \<Rightarrow> response" where
  "export_response filename data fmt =
     (let df = DataFrame_of_records data;
          format_type = (case fmt of None \<Rightarrow> ''json'' | Some f \<Rightarrow> f)
      in if format_type = ''csv'' then CsvResponse (filename @ ''.csv'') (to_csv df)
         else if format_type = ''excel'' then ExcelResponse (filename @ ''.xlsx'') df
         else JsonResponse 200 (rows data) (Some (filename @ ''.json'')))"

definition export_data :: "env \<Rightarrow> site \<Rightarrow> string \<Rightarrow> string option \<Rightarrow> response \<times> site" where
  "export_data e s data_type fmt =
     (if data_type = ''land_parcels'' then
        (export_response ''land_parcels'' (map land_parcel_values (LandParcel_objects (db s))) fmt, s)
      else if data_type = ''cropping_patterns'' then
        (export_response ''cropping_patterns''
           (map cropping_pattern_values (CroppingPattern_objects (db s))) fmt, s)
      else if data_type = ''irrigation_systems'' then
        (export_response ''irrigation_systems''
           (map irrigation_system_values (IrrigationSystem_objects (db s))) fmt, s)
      else if data_type = ''comprehensive_report'' then generate_comprehensive_report e s
      else (JsonResponse 400 (PDict [(''error'', PStr ''Invalid data type'')]) None, s))"


subsection \<open>Document reports\<close>

text \<open>The rupee sign and the bullet, as the bytes of their UTF-8 encoding.\<close>

definition rupee :: string where
  "rupee = [CHR 0xE2, CHR 0x82, CHR 0xB9]"

definition bullet :: string where
  "bullet = [CHR 0xE2, CHR 0x80, CHR 0xA2]"

text \<open>
  Each generator appends to the story and returns it.  Their \<open>try\<close> blocks hold only
  queries and the making of flowables from literal texts and table cells, which are
  taken to succeed, so the handlers that append an error paragraph are not modelled.
\<close>

definition generate_summary_report :: "store \<Rightarrow> flowable list \<Rightarrow> flowable list" where
  "generate_summary_report st story =
     (let total_land_holders = of_nat (length (LandHolder_objects st));
          total_parcels = of_nat (length (LandParcel_objects st));
          total_cultivated_area = or_0 (Sum cultivated_area (LandParcel_objects st));
          total_revenue = or_0 (Sum revenue (CroppingPattern_objects st))
      in story @
         [Paragraph [Lit ''Executive Summary''] CustomHeading,
          Table [[[Lit ''Metric''], [Lit ''Value'']],
                 [[Lit ''Total Land Holders''], [Fmt '','' total_land_holders]],
                 [[Lit ''Total Land Parcels''], [Fmt '','' total_parcels]],
                 [[Lit ''Total Cultivated Area''], [Fmt '',.2f'' total_cultivated_area, Lit '' hectares'']],
                 [[Lit ''Total Revenue Generated''], [Lit rupee, Fmt '',.2f'' total_revenue]]],
          Spacer 1 20])"

definition generate_land_analysis_report :: "store \<Rightarrow> flowable list \<Rightarrow> flowable list" where
  "generate_land_analysis_report st story =
     (let holdings = land_holding st in
      story @ [Paragraph [Lit ''Land Holding Analysis''] CustomHeading]
        @ (if holdings \<noteq> [] then
             [Table ([[Lit ''Ownership Type''], [Lit ''Count''], [Lit ''Total Land Area (hectares)'']]
                     # map (\<lambda>(k, g). [[Lit k], [Fmt [] (of_nat (length g))],
                                        [Fmt '',.2f'' (or_0 (Sum total_area (List.map_filter snd g)))]])
                         holdings)]
           else [Paragraph [Lit ''No land holding data available.''] CustomNormal])
        @ [Spacer 1 20])"

definition generate_crop_analysis_report :: "store \<Rightarrow> flowable list \<Rightarrow> flowable list" where
  "generate_crop_analysis_report st story =
     (let top_by_revenue =
            take 10 (order_by_desc (\<lambda>(k, g). sum_list (map revenue g))
                       (crop_totals (CroppingPattern_objects st)))
      in story @ [Paragraph [Lit ''Crop Productivity Analysis''] CustomHeading]
        @ (if top_by_revenue \<noteq> [] then
             [Table ([[Lit ''Crop Name''], [Lit ''Area (hectares)''], [Lit ''Total Yield''],
                      [Lit (''Revenue ('' @ rupee @ '')'')]]
                     # map (\<lambda>(k, g). [[Lit (if k = [] then ''Unknown'' else k)],
                                        [Fmt '',.2f'' (or_0 (Sum area_allocated g))],
                                        [Fmt '',.2f'' (or_0 (Sum yield_amount g))],
                                        [Lit rupee, Fmt '',.2f'' (or_0 (Sum revenue g))]])
                         top_by_revenue)]
           else [Paragraph [Lit ''No crop data available.''] CustomNormal])
        @ [Spacer 1 20])"

definition generate_irrigation_analysis_report :: "backend \<Rightarrow> store \<Rightarrow> flowable list \<Rightarrow> flowable list" where
  "generate_irrigation_analysis_report b st story =
     (let systems = group_by system_type (IrrigationSystem_objects st) in
      story @ [Paragraph [Lit ''Irrigation System Analysis''] CustomHeading]
        @ (if systems \<noteq> [] then
             [Table ([[Lit ''System Type''], [Lit ''Count''], [Lit ''Avg Efficiency''],
                      [Lit ''Avg Water Usage'']]
                     # map (\<lambda>(k, g). [[Lit k], [Fmt [] (of_nat (length g))],
                                        [Fmt ''.1f'' (or_0 (Avg b (\<lambda>x. of_int (efficiency_rating x)) g)), Lit ''%''],
                                        [Fmt '',.0f'' (or_0 (Avg b annual_water_usage g)), Lit '' liters'']])
                         systems)]
           else [Paragraph [Lit ''No irrigation data available.''] CustomNormal])
        @ [Spacer 1 20])"

definition recommendations :: "string list" where
  "recommendations =
     [bullet @ '' Consider expanding high-revenue crop cultivation'',
      bullet @ '' Optimize irrigation systems for better water efficiency'',
      bullet @ '' Implement soil health improvement programs'',
      bullet @ '' Explore diversification of crop patterns'',
      bullet @ '' Invest in modern agricultural technologies'']"

definition generate_comprehensive_story :: "backend \<Rightarrow> store \<Rightarrow> flowable list \<Rightarrow> flowable list" where
  "generate_comprehensive_story b st story =
     generate_irrigation_analysis_report b st
       (generate_crop_analysis_report st
          (generate_land_analysis_report st
             (generate_summary_report st story)))
       @ Paragraph [Lit ''Recommendations''] CustomHeading
         # map (\<lambda>r. Paragraph [Lit r] CustomNormal) recommendations"

text \<open>The title and the date with which every report starts.\<close>

definition report_title :: "string \<Rightarrow> fragment list" where
  "report_title report_type = [Lit ''Agricultural Analysis Report - '', Titled report_type]"

definition report_head :: "env \<Rightarrow> string \<Rightarrow> flowable list" where
  "report_head e report_type =
     [Paragraph (report_title report_type) CustomTitle,
      Spacer 1 20,
      Paragraph [Lit (''Generated on: '' @ now_long e)] CustomNormal,
      Spacer 1 30]"

definition report_story :: "env \<Rightarrow> store \<Rightarrow> string \<Rightarrow> flowable list" where
  "report_story e st report_type =
     (let story = report_head e report_type in
      if report_type = ''summary'' then generate_summary_report st story
      else if report_type = ''land_analysis'' then generate_land_analysis_report st story
      else if report_type = ''crop_analysis'' then generate_crop_analysis_report st story
      else if report_type = ''irrigation_analysis'' then
        generate_irrigation_analysis_report (database e) st story
      else if report_type = ''comprehensive'' then generate_comprehensive_story (database e) st story
      else story @ [Paragraph [Lit ''Invalid report type selected.''] CustomNormal])"

text \<open>
  The \<open>try\<close> block of \<open>download_analysis_report\<close>, in the order of the source: the
  title paragraph is made, the story is filled and built, and the header of the
  response is set.  The first exception ends the block.
\<close>

definition analysis_report_pdf :: "env \<Rightarrow> store \<Rightarrow> string \<Rightarrow> exn + response" where
  "analysis_report_pdf e st report_type =
     (case paragraph_error e (report_title report_type) of
        Some m \<Rightarrow> Inl (ReportLabError m)
      | None \<Rightarrow>
          (let story = report_story e st report_type in
           case build_error e story of
             Some m \<Rightarrow> Inl (ReportLabError m)
           | None \<Rightarrow>
               (case content_disposition (''agriculture_report_'' @ report_type @ ''_'' @ now_compact e @ ''.pdf'') of
                  Inl x \<Rightarrow> Inl x
                | Inr name \<Rightarrow> Inr (PdfResponse name story))))"

text \<open>
  \<open>download_analysis_report\<close>: without ReportLab an error message is queued and the
  user is sent back to the reports page; when the \<open>try\<close> block raises, the same
  happens with the text of the exception in the message; otherwise the answer is the PDF
  download.
\<close>

definition download_analysis_report :: "env \<Rightarrow> site \<Rightarrow> string \<Rightarrow> response \<times> site" where
  "download_analysis_report e s report_type =
     (if \<not> REPORTLAB_AVAILABLE e then
        (Redirect ''analysis_reports'' None,
         messages_error s [Lit ''PDF generation is not available. Please install ReportLab.''])
      else
        (case analysis_report_pdf e (db s) report_type of
           Inl x \<Rightarrow>
             (Redirect ''analysis_reports'' None,
              messages_error s (Lit ''Error generating report: '' # str_exn x))
         | Inr pdf \<Rightarrow> (pdf, s)))"

definition SOIL_TYPES :: "(string \<times> string) list" where
  "SOIL_TYPES =
     [(''clay'', ''Clay''), (''sandy'', ''Sandy''), (''loamy'', ''Loamy''),
      (''silt'', ''Silt''), (''peat'', ''Peat''), (''chalky'', ''Chalky'')]"

definition get_soil_type_display :: "LandParcel \<Rightarrow> string" where
  "get_soil_type_display p =
     (case map_of SOIL_TYPES (soil_type p) of Some label \<Rightarrow> label | None \<Rightarrow> soil_type p)"

definition parcel_fields :: "LandParcel \<Rightarrow> (string \<times> fragment list) list" where
  "parcel_fields parcel =
     [(''Parcel ID'', [Lit (parcel_id parcel)]),
      (''Total Area'', [Fmt [] (total_area parcel), Lit '' hectares'']),
      (''Cultivated Area'', [Fmt [] (cultivated_area parcel), Lit '' hectares'']),
      (''Soil Type'', [Lit (get_soil_type_display parcel)]),
      (''Land Holder'', [Lit (holder_name (land_holder parcel))]),
      (''Region'', [Lit (region_name (region (land_holder parcel)))])]"

text \<open>
  The \<open>try\<close> block of \<open>download_parcel_report\<close> after the parcel is found.  Without
  ReportLab the report is the CSV file of a two-column frame; with it, a PDF with the
  same fields in a table, under a title paragraph.  In both the header of the response
  carries the \<open>parcel_id\<close>.
\<close>

definition parcel_report :: "env \<Rightarrow> LandParcel \<Rightarrow> exn + response" where
  "parcel_report e parcel =
     (if \<not> REPORTLAB_AVAILABLE e then
        (case content_disposition (''parcel_'' @ parcel_id parcel @ ''_report.csv'') of
           Inl x \<Rightarrow> Inl x
         | Inr name \<Rightarrow>
             Inr (CsvResponse name
                    (to_csv (DataFrame_of_columns
                               [(''Field'', map (\<lambda>(f, v). PStr f) (parcel_fields parcel)),
                                (''Value'', map (\<lambda>(f, v). PText v) (parcel_fields parcel))]))))
      else
        (case paragraph_error e [Lit (''Land Parcel Report - '' @ parcel_id parcel)] of
           Some m \<Rightarrow> Inl (ReportLabError m)
         | None \<Rightarrow>
             (let story =
                    [Paragraph [Lit (''Land Parcel Report - '' @ parcel_id parcel)] CustomTitle,
                     Spacer 1 20,
                     Table (map (\<lambda>(f, v). [[Lit f], v]) (parcel_fields parcel))]
              in case build_error e story of
                   Some m \<Rightarrow> Inl (ReportLabError m)
                 | None \<Rightarrow>
                     (case content_disposition (''parcel_'' @ parcel_id parcel @ ''_report.pdf'') of
                        Inl x \<Rightarrow> Inl x
                      | Inr name \<Rightarrow> Inr (PdfResponse name story)))))"

text \<open>
  \<open>download_parcel_report\<close>: the parcel is looked up inside the \<open>try\<close> block, so the
  \<open>Http404\<close> of a missing parcel is caught by \<open>except Exception\<close> like any exception
  of the block: an error message with the text of the exception is queued and the user
  is sent to the page of the parcel.
\<close>

definition download_parcel_report :: "env \<Rightarrow> site \<Rightarrow> int \<Rightarrow> response \<times> site" where
  "download_parcel_report e s pk =
     (case (case find (\<lambda>p. parcel_pk p = pk) (LandParcel_objects (db s)) of
              None \<Rightarrow> Inl (Http404 ''No LandParcel matches the given query.'')
            | Some parcel \<Rightarrow> parcel_report e parcel) of
        Inl x \<Rightarrow>
          (Redirect ''land_parcel_detail'' (Some pk),
           messages_error s (Lit ''Error generating parcel report: '' # str_exn x))
      | Inr report \<Rightarrow> (report, s))"


subsection \<open>region\_analysis and crop\_analysis\<close>

text \<open>
  \<open>aggregate\<close> runs its query at once, inside the \<open>try\<close> block, so an error of the
  database there empties the whole context; the three grouped queries are lazy and run
  when the context is built.  The expression \<open>Avg(...) / Avg(...) * 100\<close> is computed
  inside the database and read once.
\<close>

definition region_aggregate :: "backend \<Rightarrow> LandParcel list \<Rightarrow> exn + row" where
  "region_aggregate b ps =
     (case sql_div b (avg_value b cultivated_area ps) (avg_value b total_area ps) of
        Inl x \<Rightarrow> Inl x
      | Inr q \<Rightarrow>
          Inr [(''total_parcels'', Count ps),
               (''total_area'', Sum total_area ps),
               (''avg_parcel_size'', Avg b total_area ps),
               (''cultivated_percentage'', read_value b (sql_times b q 100))])"

definition top_crops :: "backend \<Rightarrow> CroppingPattern list \<Rightarrow> row list" where
  "top_crops b xs =
     map (\<lambda>((name, pk), g). [(''crop__name'', PStr name), (''crop__id'', PNum (of_int pk)),
                               (''total_area'', Sum area_allocated g),
                               (''avg_yield'', Avg b yield_amount g),
                               (''total_revenue'', Sum revenue g)])
       (take 10 (order_by_desc (\<lambda>(k, g). sum_list (map area_allocated g))
                   (group_by (\<lambda>x. (crop_name (crop x), crop_pk (crop x))) xs)))"

definition region_analysis :: "env \<Rightarrow> site \<Rightarrow> int \<Rightarrow> response \<times> site" where
  "region_analysis e s region_id =
     (case find (\<lambda>r. region_pk r = region_id) (Region_objects (db s)) of
        None \<Rightarrow> (NotFound, s)
      | Some r \<Rightarrow>
          (let in_r = in_region (region_pk r) in
           case region_aggregate (database e) (filter in_r (LandParcel_objects (db s))) of
             Inl x \<Rightarrow>
               (Render ''land_analysis/region_analysis.html''
                  [(''region'', PModel ''Region'' (region_pk r)),
                   (''region_stats'', PDict []),
                   (''top_crops'', PList []),
                   (''soil_distribution'', PList []),
                   (''irrigation_systems'', PList [])], s)
           | Inr stats \<Rightarrow>
               (Render ''land_analysis/region_analysis.html''
                  [(''region'', PModel ''Region'' (region_pk r)),
                   (''region_stats'', PDict stats),
                   (''top_crops'',
                    rows (top_crops (database e)
                            (filter (\<lambda>x. in_r (pattern_land_parcel x)) (CroppingPattern_objects (db s))))),
                   (''soil_distribution'', rows (soil_data (filter in_r (LandParcel_objects (db s))))),
                   (''irrigation_systems'',
                    rows (irrigation_distribution (database e)
                            (filter (\<lambda>x. in_r (irrigation_land_parcel x))
                               (IrrigationSystem_objects (db s)))))], s)))"

definition crop_aggregate :: "backend \<Rightarrow> CroppingPattern list \<Rightarrow> exn + row" where
  "crop_aggregate b xs =
     (case sql_div b (avg_value b yield_amount xs) (avg_value b area_allocated xs) of
        Inl x \<Rightarrow> Inl x
      | Inr avg_yield_per_hectare \<Rightarrow>
          (case sql_div b (avg_value b revenue xs) (avg_value b area_allocated xs) of
             Inl x \<Rightarrow> Inl x
           | Inr avg_revenue_per_hectare \<Rightarrow>
               Inr [(''total_area'', Sum area_allocated xs),
                    (''total_yield'', Sum yield_amount xs),
                    (''avg_yield_per_hectare'', read_value b avg_yield_per_hectare),
                    (''total_revenue'', Sum revenue xs),
                    (''avg_revenue_per_hectare'', read_value b avg_revenue_per_hectare)]))"

definition regional_distribution :: "CroppingPattern list \<Rightarrow> row list" where
  "regional_distribution xs =
     map (\<lambda>((name, pk), g). [(''land_parcel__land_holder__region__name'', PStr name),
                               (''land_parcel__land_holder__region__id'', PNum (of_int pk)),
                               (''area'', Sum area_allocated g),
                               (''yield_amount'', Sum yield_amount g),
                               (''revenue'', Sum revenue g)])
       (order_by_desc (\<lambda>(k, g). sum_list (map area_allocated g))
          (group_by (\<lambda>x. (region_name (region (land_holder (pattern_land_parcel x))),
                           region_pk (region (land_holder (pattern_land_parcel x))))) xs))"

definition seasonal_performance :: "backend \<Rightarrow> CroppingPattern list \<Rightarrow> row list" where
  "seasonal_performance b xs =
     map (\<lambda>(k, g). [(''season'', PStr k), (''avg_yield'', Avg b yield_amount g),
                      (''avg_revenue'', Avg b revenue g), (''total_area'', Sum area_allocated g)])
       (group_by season xs)"

definition yearly_trend :: "CroppingPattern list \<Rightarrow> row list" where
  "yearly_trend xs =
     map (\<lambda>(k, g). [(''year'', PNum (of_int k)), (''total_yield'', Sum yield_amount g),
                      (''total_revenue'', Sum revenue g), (''total_area'', Sum area_allocated g)])
       (order_by_asc fst (group_by year xs))"

definition crop_analysis :: "env \<Rightarrow> site \<Rightarrow> int \<Rightarrow> response \<times> site" where
  "crop_analysis e s crop_id =
     (case find (\<lambda>c. crop_pk c = crop_id) (Crop_objects (db s)) of
        None \<Rightarrow> (NotFound, s)
      | Some c \<Rightarrow>
          (let of_crop = filter (\<lambda>x. crop_pk (crop x) = crop_pk c) (CroppingPattern_objects (db s)) in
           case crop_aggregate (database e) of_crop of
             Inl x \<Rightarrow>
               (Render ''land_analysis/crop_analysis.html''
                  [(''crop'', PModel ''Crop'' (crop_pk c)),
                   (''crop_stats'', PDict []),
                   (''regional_distribution'', PList []),
                   (''seasonal_performance'', PList []),
                   (''yearly_trend'', PList [])], s)
           | Inr stats \<Rightarrow>
               (Render ''land_analysis/crop_analysis.html''
                  [(''crop'', PModel ''Crop'' (crop_pk c)),
                   (''crop_stats'', PDict stats),
                   (''regional_distribution'', rows (regional_distribution of_crop)),
                   (''seasonal_performance'', rows (seasonal_performance (database e) of_crop)),
                   (''yearly_trend'', rows (yearly_trend of_crop))], s)))"


section \<open>Reading responses, and the integrity of the store\<close>

text \<open>The dictionary that a JSON response or a rendered page carries.\<close>

fun response_data :: "response \<Rightarrow> row" where
  "response_data (JsonResponse status (PDict d) attachment) = d"
| "response_data (Render template context) = context"
| "response_data _ = []"

definition entry :: "response \<Rightarrow> string \<Rightarrow> pyval option" where
  "entry r k = map_of (response_data r) k"

text \<open>An entry of a dictionary that is itself an entry of the response.\<close>

definition stat :: "response \<Rightarrow> string \<Rightarrow> string \<Rightarrow> pyval option" where
  "stat r k j = (case entry r k of Some (PDict d) \<Rightarrow> map_of d j | _ \<Rightarrow> None)"

text \<open>The rows of an entry that is a list of dictionaries.\<close>

fun dict_of :: "pyval \<Rightarrow> row" where
  "dict_of (PDict d) = d"
| "dict_of _ = []"

definition list_entry :: "response \<Rightarrow> string \<Rightarrow> row list" where
  "list_entry r k = (case entry r k of Some (PList vs) \<Rightarrow> map dict_of vs | _ \<Rightarrow> [])"

text \<open>A response that the browser saves as a file.\<close>

fun is_download :: "response \<Rightarrow> bool" where
  "is_download (JsonResponse status d attachment) = (attachment \<noteq> None)"
| "is_download (CsvResponse name content) = True"
| "is_download (ExcelResponse name df) = True"
| "is_download (PdfResponse name story) = True"
| "is_download _ = False"

text \<open>
  What the foreign keys guarantee of a store: the parcel of every irrigation system and
  of every cropping pattern is a row of the parcel table.
\<close>

definition referential_integrity :: "store \<Rightarrow> bool" where
  "referential_integrity st =
     (list_all (\<lambda>x. irrigation_land_parcel x \<in> set (LandParcel_objects st)) (IrrigationSystem_objects st)
      \<and> list_all (\<lambda>x. pattern_land_parcel x \<in> set (LandParcel_objects st)) (CroppingPattern_objects st))"

text \<open>The export types and the report types that the views know.\<close>

definition data_types :: "string list" where
  "data_types = [''land_parcels'', ''cropping_patterns'', ''irrigation_systems'', ''comprehensive_report'']"

definition report_types :: "string list" where
  "report_types = [''summary'', ''land_analysis'', ''crop_analysis'', ''irrigation_analysis'', ''comprehensive'']"

text \<open>
  The scope of a statistics query as the specification words it, stated apart from the
  filters of the view so that the two can be compared: a parcel is in scope when it lies
  in the region asked for, if a region is asked for, and has the soil type asked for,
  if a soil type is asked for.
\<close>

definition in_scope_spec :: "stats_query \<Rightarrow> LandParcel \<Rightarrow> bool" where
  "in_scope_spec q p =
     ((case q_region q of Numeric n \<Rightarrow> region_pk (region (land_holder p)) = n | _ \<Rightarrow> True)
      \<and> (case q_soil_type q of None \<Rightarrow> True | Some t \<Rightarrow> t = [] \<or> soil_type p = t))"

text \<open>
  The row of the soil distribution for the soil type \<open>k\<close> over the parcels \<open>ps\<close>, as
  the specification words it: the soil type, the number of the parcels with that soil
  type and the sum of their total areas.
\<close>

definition soil_row_spec :: "LandParcel list \<Rightarrow> string \<Rightarrow> row" where
  "soil_row_spec ps k =
     [(''soil_type'', PStr k),
      (''count'', PNum (of_nat (length (filter (\<lambda>p. soil_type p = k) ps)))),
      (''total_area'', PNum (sum_list (map total_area (filter (\<lambda>p. soil_type p = k) ps))))]"

fun well_formed :: "query_id \<Rightarrow> bool" where
  "well_formed (Malformed m) = False"
| "well_formed _ = True"


section \<open>Example data\<close>

definition north :: Region where
  "north = \<lparr>region_pk = 1, region_name = ''North'', region_code = ''N'', region_total_area = 500\<rparr>"

definition south :: Region where
  "south = \<lparr>region_pk = 2, region_name = ''South'', region_code = ''S'', region_total_area = 300\<rparr>"

definition asha :: LandHolder where
  "asha = \<lparr>holder_pk = 1, holder_name = ''Asha'', ownership_type = ''individual'', region = north\<rparr>"

definition bala :: LandHolder where
  "bala = \<lparr>holder_pk = 2, holder_name = ''Bala'', ownership_type = ''community'', region = south\<rparr>"

definition np1 :: LandParcel where
  "np1 = \<lparr>parcel_pk = 1, land_holder = asha, parcel_id = ''NP-001'', total_area = 10,
          cultivated_area = 15 / 2, soil_type = ''loamy''\<rparr>"

definition np2 :: LandParcel where
  "np2 = \<lparr>parcel_pk = 2, land_holder = asha, parcel_id = ''NP-002'', total_area = 4,
          cultivated_area = 4, soil_type = ''clay''\<rparr>"

definition np3 :: LandParcel where
  "np3 = \<lparr>parcel_pk = 3, land_holder = asha, parcel_id = ''NP-003'', total_area = 6,
          cultivated_area = 5, soil_type = ''loamy''\<rparr>"

definition sp1 :: LandParcel where
  "sp1 = \<lparr>parcel_pk = 4, land_holder = bala, parcel_id = ''SP-001'', total_area = 8,
          cultivated_area = 2, soil_type = ''loamy''\<rparr>"

text \<open>A parcel whose identifier holds a line feed: \<open>parcel_id\<close> is a \<open>CharField\<close> without a validator.\<close>

definition broken_id :: LandParcel where
  "broken_id = \<lparr>parcel_pk = 5, land_holder = asha, parcel_id = [CHR ''N'', CHR 0x0A, CHR ''P''],
                total_area = 1, cultivated_area = 1, soil_type = ''silt''\<rparr>"

definition wheat :: Crop where
  "wheat = \<lparr>crop_pk = 1, crop_name = ''Wheat'', crop_type = ''cereal''\<rparr>"

definition mustard :: Crop where
  "mustard = \<lparr>crop_pk = 2, crop_name = ''Mustard'', crop_type = ''cash''\<rparr>"

definition gram :: Crop where
  "gram = \<lparr>crop_pk = 3, crop_name = ''Gram'', crop_type = ''pulse''\<rparr>"

definition wheat_2023 :: CroppingPattern where
  "wheat_2023 = \<lparr>pattern_pk = 1, pattern_land_parcel = np1, crop = wheat, year = 2023,
                 season = ''rabi'', area_allocated = 5, yield_amount = 20, revenue = 1000\<rparr>"

definition wheat_2024 :: CroppingPattern where
  "wheat_2024 = \<lparr>pattern_pk = 2, pattern_land_parcel = np2, crop = wheat, year = 2024,
                 season = ''rabi'', area_allocated = 3, yield_amount = 4, revenue = 300\<rparr>"

text \<open>
  An intercrop entered with its yield and no area of its own: \<open>area_allocated\<close> has no
  minimum in models.py or in forms.py.
\<close>

definition mustard_2024 :: CroppingPattern where
  "mustard_2024 = \<lparr>pattern_pk = 3, pattern_land_parcel = np1, crop = mustard, year = 2024,
                   season = ''rabi'', area_allocated = 0, yield_amount = 2, revenue = 150\<rparr>"

text \<open>One ton of gram on three hectares.\<close>

definition gram_2024 :: CroppingPattern where
  "gram_2024 = \<lparr>pattern_pk = 4, pattern_land_parcel = np2, crop = gram, year = 2024,
                season = ''rabi'', area_allocated = 3, yield_amount = 1, revenue = 60\<rparr>"

definition farm_store :: store where
  "farm_store =
     \<lparr>Region_objects = [north, south], LandHolder_objects = [asha, bala],
      LandParcel_objects = [np1, np2, np3, sp1],
      IrrigationSystem_objects = [], Crop_objects = [wheat, mustard, gram],
      CroppingPattern_objects = [wheat_2023, wheat_2024, gram_2024]\<rparr>"

definition intercrop_store :: store where
  "intercrop_store = farm_store\<lparr>CroppingPattern_objects := [wheat_2023, mustard_2024]\<rparr>"

definition broken_id_store :: store where
  "broken_id_store = farm_store\<lparr>LandParcel_objects := [np1, broken_id]\<rparr>"

text \<open>A store with a region that has no holder and no parcel.\<close>

definition region_only_store :: store where
  "region_only_store = empty_store\<lparr>Region_objects := [north]\<rparr>"

text \<open>
  A backend for the examples, whose arithmetic is exact and which hands a computed value
  to Python rounded to fifteen decimal places.  SQLite with Django reads 15 significant
  digits of a double; for a value between 0.1 and 1 those are its first fifteen decimal
  places.
\<close>

definition fifteen_places :: "decimal \<Rightarrow> decimal" where
  "fifteen_places x = of_int (round (x * 10 ^ 15)) / 10 ^ 15"

definition rounding_backend :: backend where
  "rounding_backend =
     \<lparr>null_on_zero_division = True,
      db_avg = (\<lambda>vs. sum_list vs / of_nat (length vs)),
      db_div = (\<lambda>x y. x / y),
      db_times = (\<lambda>x y. x * y),
      db_read = fifteen_places\<rparr>"

text \<open>An environment in which ReportLab accepts every paragraph and builds every story.\<close>

definition with_reportlab :: env where
  "with_reportlab =
     \<lparr>REPORTLAB_AVAILABLE = True, paragraph_error = (\<lambda>t. None), build_error = (\<lambda>story. None),
      now_long = ''November 04, 2026'', now_compact = ''20261104'', database = rounding_backend\<rparr>"

definition without_reportlab :: env where
  "without_reportlab = with_reportlab\<lparr>REPORTLAB_AVAILABLE := False\<rparr>"

definition farm_site :: site where
  "farm_site = \<lparr>db = farm_store, messages = []\<rparr>"


section \<open>Unfolding the example data\<close>

lemmas example_defs =
  farm_store_def intercrop_store_def broken_id_store_def region_only_store_def empty_store_def
  farm_site_def north_def south_def asha_def bala_def np1_def np2_def np3_def sp1_def broken_id_def
  wheat_def mustard_def gram_def wheat_2023_def wheat_2024_def mustard_2024_def gram_2024_def
  with_reportlab_def without_reportlab_def rounding_backend_def




section \<open>Grouping partitions the rows\<close>

lemma group_by_count: "sum_list (map (\<lambda>(k, g). length g) (group_by key xs)) = length xs"
proof (induction key xs rule: group_by.induct)
  case (1 key)
  show ?case by simp
next
  case (2 key x xs)
  have "length (filter (\<lambda>y. key y = key x) xs) + length (filter (\<lambda>y. key y \<noteq> key x) xs) = length xs"
    using sum_length_filter_compl [of "\<lambda>y. key y = key x" xs] by simp
  with 2 show ?case by simp
qed

lemma sum_list_filter_split:
  fixes f :: "'a \<Rightarrow> rat"
  shows "sum_list (map f (filter P xs)) + sum_list (map f (filter (\<lambda>y. \<not> P y) xs)) = sum_list (map f xs)"
  by (induction xs) auto

lemma group_by_sum:
  fixes f :: "'a \<Rightarrow> rat"
  shows "sum_list (map (\<lambda>(k, g). sum_list (map f g)) (group_by key xs)) = sum_list (map f xs)"
proof (induction key xs rule: group_by.induct)
  case (1 key)
  show ?case by simp
next
  case (2 key x xs)
  show ?case
    using 2 sum_list_filter_split [of f "\<lambda>y. key y = key x" xs] by simp
qed

text \<open>The keys of the groups are the keys of the rows, each once.\<close>

lemma group_by_keys: "set (map fst (group_by key xs)) = key ` set xs"
  by (induction key xs rule: group_by.induct) auto

lemma group_by_distinct: "distinct (map fst (group_by key xs))"
proof (induction key xs rule: group_by.induct)
  case (1 key)
  show ?case by simp
next
  case (2 key x xs)
  have "key x \<notin> set (map fst (group_by key (filter (\<lambda>y. key y \<noteq> key x) xs)))"
    unfolding group_by_keys by auto
  with 2 show ?case by simp
qed

text \<open>The group of a key holds exactly the rows with that key, in their order.\<close>

lemma group_by_group:
  "(k, g) \<in> set (group_by key xs) \<Longrightarrow> g = filter (\<lambda>y. key y = k) xs"
proof (induction key xs arbitrary: k g rule: group_by.induct)
  case (1 key)
  then show ?case by simp
next
  case (2 key x xs)
  show ?case
  proof (cases "(k, g) = (key x, x # filter (\<lambda>y. key y = key x) xs)")
    case True
    then show ?thesis by auto
  next
    case False
    with "2.prems" have mem: "(k, g) \<in> set (group_by key (filter (\<lambda>y. key y \<noteq> key x) xs))"
      by auto
    then have "k \<in> set (map fst (group_by key (filter (\<lambda>y. key y \<noteq> key x) xs)))"
      by force
    then have ne: "k \<noteq> key x"
      unfolding group_by_keys by auto
    have "g = filter (\<lambda>y. key y = k) (filter (\<lambda>y. key y \<noteq> key x) xs)"
      using "2.IH" [OF mem] .
    also have "\<dots> = filter (\<lambda>y. key y = k) xs"
      using ne by (auto intro: filter_cong)
    finally show ?thesis using ne by auto
  qed
qed

lemma group_by_nonempty: "(k, g) \<in> set (group_by key xs) \<Longrightarrow> g \<noteq> []"
  by (induction key xs rule: group_by.induct) auto

lemma sum_list_of_nat_rat:
  "sum_list (map (\<lambda>x. (of_nat (f x) :: rat)) xs) = of_nat (sum_list (map f xs))"
  by (induction xs) auto

lemma soil_data_count:
  "sum_list (map (\<lambda>r. get_num r ''count'') (soil_data ps)) = of_nat (length ps)"
proof -
  have "map (\<lambda>r. get_num r ''count'') (soil_data ps)
        = map (\<lambda>kg. of_nat (case kg of (k, g) \<Rightarrow> length g)) (group_by soil_type ps)"
    by (simp add: soil_data_def get_num_def Count_def case_prod_unfold)
  then show ?thesis
    by (simp add: sum_list_of_nat_rat group_by_count)
qed

lemma soil_data_area:
  "sum_list (map (\<lambda>r. get_num r ''total_area'') (soil_data ps)) = sum_list (map total_area ps)"
proof -
  have "get_num [(''soil_type'', PStr k), (''count'', Count g), (''total_area'', Sum total_area g)] ''total_area''
        = sum_list (map total_area g)" for k and g :: "LandParcel list"
    by (simp add: get_num_def Sum_def)
  then have "map (\<lambda>r. get_num r ''total_area'') (soil_data ps)
        = map (\<lambda>(k, g). sum_list (map total_area g)) (group_by soil_type ps)"
    by (simp add: soil_data_def case_prod_unfold)
  then show ?thesis
    by (simp add: group_by_sum)
qed

text \<open>Every row of the soil distribution is the row that the specification words.\<close>

lemma soil_data_rows:
  "soil_data ps = map (soil_row_spec ps) (map fst (group_by soil_type ps))"
proof -
  have "[(''soil_type'', PStr k), (''count'', Count g), (''total_area'', Sum total_area g)]
        = soil_row_spec ps k" if "(k, g) \<in> set (group_by soil_type ps)" for k g
  proof -
    have g: "g = filter (\<lambda>p. soil_type p = k) ps"
      using group_by_group [OF that] .
    have "g \<noteq> []"
      using group_by_nonempty [OF that] .
    then show ?thesis
      unfolding g by (simp add: soil_row_spec_def Count_def Sum_def)
  qed
  then show ?thesis
    by (auto simp: soil_data_def)
qed

lemma soil_data_set: "set (soil_data ps) = soil_row_spec ps ` soil_type ` set ps"
proof -
  have "set (soil_data ps) = soil_row_spec ps ` set (map fst (group_by soil_type ps))"
    unfolding soil_data_rows by (simp add: image_image)
  then show ?thesis
    unfolding group_by_keys .
qed

lemma soil_data_distinct: "distinct (map (\<lambda>r. cell r ''soil_type'') (soil_data ps))"
proof -
  have "map (\<lambda>r. cell r ''soil_type'') (soil_data ps) = map PStr (map fst (group_by soil_type ps))"
    unfolding soil_data_rows by (simp add: cell_def soil_row_spec_def)
  then show ?thesis
    using group_by_distinct [of soil_type ps] by (simp add: distinct_map inj_on_def)
qed

text \<open>The two filters of the view leave the parcels that are in scope.\<close>

lemma scoped_parcels_spec:
  assumes "well_formed (q_region q)"
  shows "scoped_parcels st q = Inr (filter (in_scope_spec q) (LandParcel_objects st))"
proof (cases "q_region q")
  case Missing
  then show ?thesis
    by (cases "q_soil_type q") (auto simp: scoped_parcels_def in_scope_spec_def intro: filter_cong)
next
  case (Numeric n)
  then show ?thesis
    by (cases "q_soil_type q")
      (auto simp: scoped_parcels_def in_scope_spec_def in_region_def intro: filter_cong)
next
  case (Malformed m)
  with assms show ?thesis by simp
qed

lemma api_soil_distribution:
  assumes "well_formed (q_region q)"
  shows "list_entry (fst (api_land_stats e s q)) ''soil_distribution''
         = soil_data (filter (in_scope_spec q) (LandParcel_objects (db s)))"
proof -
  have dict: "map (dict_of \<circ> PDict) rs = rs" for rs
    by (induction rs) auto
  show ?thesis
  proof (cases "q_region q")
    case Missing
    then show ?thesis
      using scoped_parcels_spec [OF assms, of "db s"]
      by (simp add: api_land_stats_def list_entry_def entry_def rows_def Let_def dict)
  next
    case (Numeric n)
    then show ?thesis
      using scoped_parcels_spec [OF assms, of "db s"]
      by (simp add: api_land_stats_def list_entry_def entry_def rows_def Let_def dict)
  next
    case (Malformed m)
    with assms show ?thesis by simp
  qed
qed

text \<open>
  Claim C5.  For every store and every filter scope, a region that is absent or an
  integer and any soil type, the soil distribution that the statistics API returns
  partitions the parcels in scope, the scope taken as the specification words it: the
  counts of its rows add up to the number of the parcels in scope and their total areas
  to the total area of those parcels, no soil type has two rows, and the rows are, for
  each soil type of a parcel in scope, that soil type with the number and the total area
  of the parcels in scope that have it.
\<close>

theorem soil_distribution_partitions_scope:
  assumes "well_formed (q_region q)"
    and "ps = filter (in_scope_spec q) (LandParcel_objects (db s))"
    and "R = list_entry (fst (api_land_stats e s q)) ''soil_distribution''"
  shows "sum_list (map (\<lambda>r. get_num r ''count'') R) = of_nat (length ps)
       \<and> sum_list (map (\<lambda>r. get_num r ''total_area'') R) = sum_list (map total_area ps)
       \<and> distinct (map (\<lambda>r. cell r ''soil_type'') R)
       \<and> set R = soil_row_spec ps ` soil_type ` set ps"
proof -
  have R: "R = soil_data ps"
    using api_soil_distribution [OF assms(1), of e s] assms(2) assms(3) by simp
  show ?thesis
    unfolding R
    using soil_data_count [of ps] soil_data_area [of ps] soil_data_distinct [of ps] soil_data_set [of ps]
    by simp
qed

lemma farm_scope:
  "[np1, np2, np3] =
     filter (in_scope_spec \<lparr>q_region = Numeric 1, q_soil_type = None\<rparr>) (LandParcel_objects (db farm_site))"
  by (simp add: in_scope_spec_def example_defs)

lemma farm_soil_distribution:
  "[[(''soil_type'', PStr ''loamy''), (''count'', PNum 2), (''total_area'', PNum 16)],
    [(''soil_type'', PStr ''clay''), (''count'', PNum 1), (''total_area'', PNum 4)]] =
     list_entry (fst (api_land_stats with_reportlab farm_site \<lparr>q_region = Numeric 1, q_soil_type = None\<rparr>))
       ''soil_distribution''"
  by (simp add: api_land_stats_def scoped_parcels_def in_region_def soil_data_def list_entry_def
      entry_def rows_def Count_def Sum_def Let_def example_defs)

text \<open>
  Claim C5 at region 1 of the farm store, whose three parcels have two soil types; the
  fourth parcel of the store lies in region 2.
\<close>

theorem soil_distribution_partitions_scope_witness:
  "well_formed (q_region \<lparr>q_region = Numeric 1, q_soil_type = None\<rparr>)
   \<and> list_entry (fst (api_land_stats with_reportlab farm_site \<lparr>q_region = Numeric 1, q_soil_type = None\<rparr>))
       ''soil_distribution'' =
     [[(''soil_type'', PStr ''loamy''), (''count'', PNum 2), (''total_area'', PNum 16)],
      [(''soil_type'', PStr ''clay''), (''count'', PNum 1), (''total_area'', PNum 4)]]
   \<and> sum_list (map (\<lambda>r. get_num r ''count'')
        [[(''soil_type'', PStr ''loamy''), (''count'', PNum 2), (''total_area'', PNum 16)],
         [(''soil_type'', PStr ''clay''), (''count'', PNum 1), (''total_area'', PNum 4)]])
       = of_nat (length [np1, np2, np3])
   \<and> sum_list (map (\<lambda>r. get_num r ''total_area'')
        [[(''soil_type'', PStr ''loamy''), (''count'', PNum 2), (''total_area'', PNum 16)],
         [(''soil_type'', PStr ''clay''), (''count'', PNum 1), (''total_area'', PNum 4)]])
       = sum_list (map total_area [np1, np2, np3])
   \<and> set [[(''soil_type'', PStr ''loamy''), (''count'', PNum 2), (''total_area'', PNum 16)],
           [(''soil_type'', PStr ''clay''), (''count'', PNum 1), (''total_area'', PNum 4)]]
       = soil_row_spec [np1, np2, np3] ` soil_type ` set [np1, np2, np3]"
proof -
  have wf: "well_formed (q_region \<lparr>q_region = Numeric 1, q_soil_type = None\<rparr>)"
    by simp
  show ?thesis
    using wf farm_soil_distribution [symmetric]
      soil_distribution_partitions_scope [OF wf farm_scope farm_soil_distribution]
    by simp
qed


section \<open>Aggregations over an empty store\<close>

lemma utilization_empty:
  "calculate_land_utilization_efficiency empty_store =
     [(''total_land'', PNum 0), (''cultivated_land'', PNum 0),
      (''utilization_rate'', PNum 0), (''uncultivated_land'', PNum 0)]"
  by (simp add: calculate_land_utilization_efficiency_def empty_store_def Sum_def)

lemma charts_empty: "generate_land_analysis_charts empty_store = []"
  by (simp add: generate_land_analysis_charts_def crop_chart_def crop_data_def soil_chart_def
      soil_data_def irrigation_chart_def irrigation_data_def trend_chart_def trend_data_def
      ownership_chart_def ownership_data_def order_by_asc_def empty_store_def)

lemma api_empty:
  assumes "well_formed (q_region q)"
  shows "api_land_stats e \<lparr>db = empty_store, messages = ms\<rparr> q =
     (JsonResponse 200
        (PDict [(''soil_distribution'', PList []), (''irrigation_distribution'', PList []),
                (''crop_distribution'', PList []), (''region_stats'', PList []),
                (''status'', PStr ''success'')]) None,
      \<lparr>db = empty_store, messages = ms\<rparr>)"
proof -
  have soil: "filter_soil f (q_soil_type q) [] = []" for f :: "'a \<Rightarrow> LandParcel"
    by (cases "q_soil_type q") simp_all
  from assms show ?thesis
    by (cases "q_region q")
      (auto simp: api_land_stats_def scoped_parcels_def empty_store_def soil rows_def
        soil_data_def irrigation_distribution_def crop_distribution_def region_stats_def)
qed

lemma comprehensive_empty:
  "export_data e \<lparr>db = empty_store, messages = ms\<rparr> ''comprehensive_report'' fmt =
     (JsonResponse 200
        (PDict [(''summary'',
                 PDict [(''total_land_holders'', PNum 0), (''total_parcels'', PNum 0),
                        (''total_cultivated_area'', PNum 0), (''total_revenue'', PNum 0)]),
                (''land_analysis'', PList []), (''crop_analysis'', PList []),
                (''irrigation_analysis'', PList [])])
        (Some ''comprehensive_agricultural_report.json''),
      \<lparr>db = empty_store, messages = ms\<rparr>)"
  by (simp add: export_data_def generate_comprehensive_report_def empty_store_def Count_def Sum_def
      rows_def land_analysis_def land_holding_def crop_totals_def irrigation_distribution_def Let_def)

text \<open>
  Claim C1, as stated, fails: over the empty store the statistics API answers a region
  parameter that is not an integer with status 500 and an error, not with empty lists,
  and the regional analysis and the crop analysis end in the not-found page, since the
  empty store has no region and no crop.
\<close>

theorem empty_store_counterexample:
  "api_land_stats with_reportlab \<lparr>db = empty_store, messages = []\<rparr>
      \<lparr>q_region = Malformed ''Field 'id' expected a number but got 'north'.'', q_soil_type = None\<rparr> =
     (JsonResponse 500
        (PDict [(''status'', PStr ''error''),
                (''message'', PText [Lit ''Field 'id' expected a number but got 'north'.''])]) None,
      \<lparr>db = empty_store, messages = []\<rparr>)
   \<and> region_analysis with_reportlab \<lparr>db = empty_store, messages = []\<rparr> 1
       = (NotFound, \<lparr>db = empty_store, messages = []\<rparr>)
   \<and> crop_analysis with_reportlab \<lparr>db = empty_store, messages = []\<rparr> 1
       = (NotFound, \<lparr>db = empty_store, messages = []\<rparr>)"
  by (simp add: api_land_stats_def scoped_parcels_def error_500_def region_analysis_def
      crop_analysis_def empty_store_def)

text \<open>
  Claim C1, amended.  Over the empty store the utilisation metrics are all 0, no chart
  is made, the comprehensive export holds zero totals and empty lists, and the statistics
  API answers with success and four empty lists whenever the region filter is absent or
  an integer, whatever the soil filter.  A region filter that is not an integer is
  answered with status 500 and the text of the error, and the regional analysis and the
  crop analysis answer with the not-found page.  Every one of them leaves the site as it
  was.
\<close>

theorem empty_store_gives_zero_results:
  "calculate_land_utilization_efficiency empty_store =
     [(''total_land'', PNum 0), (''cultivated_land'', PNum 0),
      (''utilization_rate'', PNum 0), (''uncultivated_land'', PNum 0)]
   \<and> generate_land_analysis_charts empty_store = []
   \<and> export_data e \<lparr>db = empty_store, messages = ms\<rparr> ''comprehensive_report'' fmt =
       (JsonResponse 200
          (PDict [(''summary'',
                   PDict [(''total_land_holders'', PNum 0), (''total_parcels'', PNum 0),
                          (''total_cultivated_area'', PNum 0), (''total_revenue'', PNum 0)]),
                  (''land_analysis'', PList []), (''crop_analysis'', PList []),
                  (''irrigation_analysis'', PList [])])
          (Some ''comprehensive_agricultural_report.json''),
        \<lparr>db = empty_store, messages = ms\<rparr>)
   \<and> api_land_stats e \<lparr>db = empty_store, messages = ms\<rparr> \<lparr>q_region = Missing, q_soil_type = t\<rparr> =
       (JsonResponse 200
          (PDict [(''soil_distribution'', PList []), (''irrigation_distribution'', PList []),
                  (''crop_distribution'', PList []), (''region_stats'', PList []),
                  (''status'', PStr ''success'')]) None,
        \<lparr>db = empty_store, messages = ms\<rparr>)
   \<and> api_land_stats e \<lparr>db = empty_store, messages = ms\<rparr> \<lparr>q_region = Numeric n, q_soil_type = t\<rparr> =
       (JsonResponse 200
          (PDict [(''soil_distribution'', PList []), (''irrigation_distribution'', PList []),
                  (''crop_distribution'', PList []), (''region_stats'', PList []),
                  (''status'', PStr ''success'')]) None,
        \<lparr>db = empty_store, messages = ms\<rparr>)
   \<and> api_land_stats e \<lparr>db = empty_store, messages = ms\<rparr> \<lparr>q_region = Malformed m, q_soil_type = t\<rparr> =
       (JsonResponse 500 (PDict [(''status'', PStr ''error''), (''message'', PText [Lit m])]) None,
        \<lparr>db = empty_store, messages = ms\<rparr>)
   \<and> region_analysis e \<lparr>db = empty_store, messages = ms\<rparr> n = (NotFound, \<lparr>db = empty_store, messages = ms\<rparr>)
   \<and> crop_analysis e \<lparr>db = empty_store, messages = ms\<rparr> n = (NotFound, \<lparr>db = empty_store, messages = ms\<rparr>)"
proof -
  have malformed:
    "api_land_stats e \<lparr>db = empty_store, messages = ms\<rparr> \<lparr>q_region = Malformed m, q_soil_type = t\<rparr> =
       (JsonResponse 500 (PDict [(''status'', PStr ''error''), (''message'', PText [Lit m])]) None,
        \<lparr>db = empty_store, messages = ms\<rparr>)"
    by (simp add: api_land_stats_def scoped_parcels_def error_500_def)
  have not_found:
    "region_analysis e \<lparr>db = empty_store, messages = ms\<rparr> n = (NotFound, \<lparr>db = empty_store, messages = ms\<rparr>)"
    "crop_analysis e \<lparr>db = empty_store, messages = ms\<rparr> n = (NotFound, \<lparr>db = empty_store, messages = ms\<rparr>)"
    by (simp_all add: region_analysis_def crop_analysis_def empty_store_def)
  show ?thesis
    using utilization_empty charts_empty comprehensive_empty [of e ms fmt] malformed not_found
      api_empty [of "\<lparr>q_region = Missing, q_soil_type = t\<rparr>" e ms]
      api_empty [of "\<lparr>q_region = Numeric n, q_soil_type = t\<rparr>" e ms]
    by simp
qed


section \<open>The productivity chart\<close>

lemma intercrop_crop_data:
  "crop_data (CroppingPattern_objects intercrop_store) =
     [[(''crop__name'', PStr ''Wheat''), (''total_yield'', PNum 20), (''total_area'', PNum 5)],
      [(''crop__name'', PStr ''Mustard''), (''total_yield'', PNum 2), (''total_area'', PNum 0)]]"
  by (simp add: crop_data_def example_defs Sum_def)

text \<open>
  Claim C2.  In \<open>intercrop_store\<close> the Wheat group has a positive total area, so the
  guard passes, and the Mustard group has total area 0.  The division is made for both
  groups and raises \<open>DivisionByZero\<close> on the second; the handler of
  \<open>generate_land_analysis_charts\<close> then returns no chart at all.
\<close>

theorem crop_productivity_divides_zero_area_group:
  "list_ex gt_0 (column (crop_data (CroppingPattern_objects intercrop_store)) ''total_area'')
   \<and> crop_productivity (crop_data (CroppingPattern_objects intercrop_store)) = Inl DivisionByZero
   \<and> generate_land_analysis_charts intercrop_store = []"
  by (simp add: intercrop_crop_data generate_land_analysis_charts_def crop_chart_def
      crop_productivity_def column_def cell_def)


section \<open>A region without parcels\<close>

lemma no_rows_of_region:
  assumes "referential_integrity st"
    and "filter (in_region n) (LandParcel_objects st) = []"
  shows "filter (\<lambda>x. in_region n (pattern_land_parcel x)) (CroppingPattern_objects st) = []"
    and "filter (\<lambda>x. in_region n (irrigation_land_parcel x)) (IrrigationSystem_objects st) = []"
  using assms
  by (auto simp: referential_integrity_def list_all_iff filter_empty_conv)

text \<open>
  What the regional analysis does for every region of the store that has no parcel, in
  a store that respects its foreign keys: the count is 0, the sum and the averages are
  \<open>None\<close>, and the sequences are empty.
\<close>

lemma region_without_parcels:
  assumes "find (\<lambda>r. region_pk r = region_id) (Region_objects (db s)) = Some r"
    and "filter (in_region (region_pk r)) (LandParcel_objects (db s)) = []"
    and "referential_integrity (db s)"
  shows "region_analysis e s region_id =
     (Render ''land_analysis/region_analysis.html''
        [(''region'', PModel ''Region'' (region_pk r)),
         (''region_stats'',
          PDict [(''total_parcels'', PNum 0), (''total_area'', PNone),
                 (''avg_parcel_size'', PNone), (''cultivated_percentage'', PNone)]),
         (''top_crops'', PList []), (''soil_distribution'', PList []),
         (''irrigation_systems'', PList [])], s)"
  using assms no_rows_of_region [OF assms(3) assms(2)]
  by (simp add: region_analysis_def region_aggregate_def Avg_def avg_value_def Sum_def Count_def
      Let_def rows_def top_crops_def soil_data_def irrigation_distribution_def order_by_desc_def)

lemma region_only_find:
  "find (\<lambda>r. region_pk r = 1) (Region_objects (db \<lparr>db = region_only_store, messages = []\<rparr>)) = Some north"
  by (simp add: example_defs)

lemma region_only_no_parcels:
  "filter (in_region (region_pk north)) (LandParcel_objects (db \<lparr>db = region_only_store, messages = []\<rparr>)) = []"
  by (simp add: example_defs)

lemma region_only_integrity:
  "referential_integrity (db \<lparr>db = region_only_store, messages = []\<rparr>)"
  by (simp add: referential_integrity_def example_defs)

text \<open>
  Claim C3.  For the region of \<open>region_only_store\<close>, which has no parcel, the regional
  analysis renders without an error and with empty crop, soil and irrigation sequences,
  but the \<open>total_area\<close> and the \<open>avg_parcel_size\<close> of its statistics are \<open>None\<close> where
  the claim has 0: \<open>aggregate\<close> is passed on without the \<open>or 0\<close> that the other views
  put after it.
\<close>

theorem region_without_parcels_gives_none:
  "region_analysis with_reportlab \<lparr>db = region_only_store, messages = []\<rparr> 1 =
     (Render ''land_analysis/region_analysis.html''
        [(''region'', PModel ''Region'' 1),
         (''region_stats'',
          PDict [(''total_parcels'', PNum 0), (''total_area'', PNone),
                 (''avg_parcel_size'', PNone), (''cultivated_percentage'', PNone)]),
         (''top_crops'', PList []), (''soil_distribution'', PList []),
         (''irrigation_systems'', PList [])], \<lparr>db = region_only_store, messages = []\<rparr>)
   \<and> stat (fst (region_analysis with_reportlab \<lparr>db = region_only_store, messages = []\<rparr> 1))
        ''region_stats'' ''total_area'' \<noteq> Some (PNum 0)
   \<and> stat (fst (region_analysis with_reportlab \<lparr>db = region_only_store, messages = []\<rparr> 1))
        ''region_stats'' ''avg_parcel_size'' \<noteq> Some (PNum 0)"
  using region_without_parcels [OF region_only_find region_only_no_parcels region_only_integrity,
      of with_reportlab]
  by (simp add: north_def stat_def entry_def)


section \<open>The areas of a parcel\<close>

text \<open>
  Claim C4, as stated, fails: the form accepts a parcel whose cultivated area is negative.
\<close>

theorem negative_cultivated_area_counterexample:
  "is_valid \<lparr>cd_total_area = Some 10, cd_cultivated_area = Some (- 1)\<rparr>"
  by (simp add: is_valid_def clean_def)

text \<open>
  A total area of 0 is false in \<open>if total_area and cultivated_area\<close>, so the
  comparison is skipped for it; the amended claim leaves that case out.
\<close>

lemma zero_total_accepted:
  "is_valid \<lparr>cd_total_area = Some 0, cd_cultivated_area = Some 5\<rparr>"
  by (simp add: is_valid_def clean_def)

text \<open>
  Claim C4, amended.  When both areas are given and neither is 0, the form is valid
  exactly when the cultivated area is at most the total area, and a cultivated area
  above the total area is rejected with the validation error on \<open>cultivated_area\<close>.
\<close>

theorem clean_checks_nonzero_areas:
  assumes "cd_total_area cd = Some t" and "cd_cultivated_area cd = Some c"
    and "t \<noteq> 0" and "c \<noteq> 0"
  shows "(is_valid cd \<longleftrightarrow> c \<le> t)
       \<and> (t < c \<longrightarrow> clean cd = Inl (ValidationError
              [(''cultivated_area'', ''Cultivated area cannot be greater than total area.'')]))"
  using assms by (auto simp: is_valid_def clean_def)

text \<open>
  The amended claim C4 at a total area of 10 with cultivated areas 7.5 and 12.
\<close>

theorem clean_checks_nonzero_areas_witness:
  "is_valid \<lparr>cd_total_area = Some 10, cd_cultivated_area = Some (15 / 2)\<rparr>
   \<and> \<not> is_valid \<lparr>cd_total_area = Some 10, cd_cultivated_area = Some 12\<rparr>
   \<and> clean \<lparr>cd_total_area = Some 10, cd_cultivated_area = Some 12\<rparr> =
       Inl (ValidationError [(''cultivated_area'', ''Cultivated area cannot be greater than total area.'')])"
  using clean_checks_nonzero_areas [of "\<lparr>cd_total_area = Some 10, cd_cultivated_area = Some (15 / 2)\<rparr>" 10 "15 / 2"]
    clean_checks_nonzero_areas [of "\<lparr>cd_total_area = Some 10, cd_cultivated_area = Some 12\<rparr>" 10 12]
  by simp


section \<open>Exporting no parcels\<close>

text \<open>
  Claim C6, as stated, fails: the CSV export of no parcels is not the file that holds the
  row of the six column names.
\<close>

theorem export_no_parcels_counterexample:
  "export_data with_reportlab \<lparr>db = empty_store, messages = []\<rparr> ''land_parcels'' (Some ''csv'') \<noteq>
     (CsvResponse ''land_parcels.csv''
        [[PStr ''parcel_id'', PStr ''total_area'', PStr ''cultivated_area'', PStr ''soil_type'',
          PStr ''land_holder__name'', PStr ''land_holder__region__name'']],
      \<lparr>db = empty_store, messages = []\<rparr>)"
  by (simp add: export_data_def export_response_def DataFrame_of_records_def to_csv_def
      empty_store_def)

text \<open>
  Claim C6, amended.  When the store holds no parcel, the CSV export of \<open>land_parcels\<close>
  is the file \<open>land_parcels.csv\<close> with one row that has no cells, an empty line: the
  header row carries no column names, and there is no data row.
\<close>

theorem export_no_parcels:
  assumes "LandParcel_objects (db s) = []"
  shows "export_data e s ''land_parcels'' (Some ''csv'') = (CsvResponse ''land_parcels.csv'' [[]], s)"
  using assms
  by (simp add: export_data_def export_response_def DataFrame_of_records_def to_csv_def)

text \<open>
  The amended claim C6 at a store with a region and no parcel.
\<close>

theorem export_no_parcels_witness:
  "LandParcel_objects (db \<lparr>db = region_only_store, messages = []\<rparr>) = []
   \<and> export_data with_reportlab \<lparr>db = region_only_store, messages = []\<rparr> ''land_parcels'' (Some ''csv'') =
       (CsvResponse ''land_parcels.csv'' [[]], \<lparr>db = region_only_store, messages = []\<rparr>)"
proof -
  have h: "LandParcel_objects (db \<lparr>db = region_only_store, messages = []\<rparr>) = []"
    by (simp add: example_defs)
  show ?thesis using h export_no_parcels [OF h, of with_reportlab] by simp
qed

text \<open>With one parcel the columns are the six keys of its record.\<close>

lemma export_one_parcel:
  "fst (export_data with_reportlab \<lparr>db = farm_store\<lparr>LandParcel_objects := [np1]\<rparr>, messages = []\<rparr>
          ''land_parcels'' (Some ''csv'')) =
     CsvResponse ''land_parcels.csv''
        [[PStr ''parcel_id'', PStr ''total_area'', PStr ''cultivated_area'', PStr ''soil_type'',
          PStr ''land_holder__name'', PStr ''land_holder__region__name''],
         [PStr ''NP-001'', PNum 10, PNum (15 / 2), PStr ''loamy'', PStr ''Asha'', PStr ''North'']]"
  by (simp add: export_data_def export_response_def DataFrame_of_records_def to_csv_def
      land_parcel_values_def cell_def example_defs)


section \<open>Line breaks in a header\<close>

lemma has_newline_append: "has_newline (u @ v) = (has_newline u \<or> has_newline v)"
  by (auto simp: has_newline_def)

lemma has_newline_Cons: "has_newline (c # v) = (c = CHR 0x0A \<or> c = CHR 0x0D \<or> has_newline v)"
  by (auto simp: has_newline_def)

lemma has_newline_Nil: "\<not> has_newline []"
  by (simp add: has_newline_def)


section \<open>Reports without ReportLab\<close>

text \<open>
  Claim C7, as stated, fails: without ReportLab the analysis report is not a download.
\<close>

theorem report_without_reportlab_counterexample:
  "\<not> is_download (fst (download_analysis_report without_reportlab farm_site ''summary''))"
  by (simp add: download_analysis_report_def example_defs)

lemma parcel_csv:
  "to_csv (DataFrame_of_columns
             [(''Field'', map (\<lambda>(f, v). PStr f) (parcel_fields parcel)),
              (''Value'', map (\<lambda>(f, v). PText v) (parcel_fields parcel))])
   = [PStr ''Field'', PStr ''Value''] # map (\<lambda>(f, v). [PStr f, PText v]) (parcel_fields parcel)"
proof -
  have "[0 ..< 6] = [0, 1, 2, 3, 4, 5 :: nat]"
    by (simp add: upt_rec)
  then show ?thesis
    by (simp add: to_csv_def DataFrame_of_columns_def parcel_fields_def cell_def)
qed

text \<open>
  Claim C7, amended.  Without ReportLab, \<open>download_analysis_report\<close> makes no download:
  it queues the error message that PDF generation is not available and redirects to the
  reports page.  \<open>download_parcel_report\<close> answers for an existing parcel whose
  identifier holds no line break with the CSV file of its six fields, and queues no
  message; for an identifier with a line break the header of the response is refused,
  and for a parcel that does not exist the lookup fails, and in both cases the view
  queues an error message with the text of the exception and redirects to the page of
  the parcel.
\<close>

theorem without_reportlab:
  assumes "\<not> REPORTLAB_AVAILABLE e"
  shows "download_analysis_report e s report_type =
           (Redirect ''analysis_reports'' None,
            messages_error s [Lit ''PDF generation is not available. Please install ReportLab.''])
       \<and> (find (\<lambda>p. parcel_pk p = pk) (LandParcel_objects (db s)) = Some parcel
            \<and> \<not> has_newline (parcel_id parcel) \<longrightarrow>
            download_parcel_report e s pk =
              (CsvResponse (''parcel_'' @ parcel_id parcel @ ''_report.csv'')
                 ([PStr ''Field'', PStr ''Value'']
                    # map (\<lambda>(f, v). [PStr f, PText v]) (parcel_fields parcel)), s))
       \<and> (find (\<lambda>p. parcel_pk p = pk) (LandParcel_objects (db s)) = Some parcel
            \<and> has_newline (parcel_id parcel) \<longrightarrow>
            download_parcel_report e s pk =
              (Redirect ''land_parcel_detail'' (Some pk),
               messages_error s
                 [Lit ''Error generating parcel report: '',
                  Lit ''Header values can't contain newlines (got '',
                  Repr (''attachment; filename='' @ [CHR 0x22]
                          @ (''parcel_'' @ parcel_id parcel @ ''_report.csv'') @ [CHR 0x22]),
                  Lit '')'']))
       \<and> (find (\<lambda>p. parcel_pk p = pk) (LandParcel_objects (db s)) = None \<longrightarrow>
            download_parcel_report e s pk =
              (Redirect ''land_parcel_detail'' (Some pk),
               messages_error s
                 [Lit ''Error generating parcel report: '',
                  Lit ''No LandParcel matches the given query.'']))"
  using assms
  by (auto simp: download_analysis_report_def download_parcel_report_def parcel_report_def
      content_disposition_def has_newline_Cons has_newline_append has_newline_Nil parcel_csv Let_def)

lemma farm_find_parcel:
  "find (\<lambda>p. parcel_pk p = 1) (LandParcel_objects (db farm_site)) = Some np1"
  by (simp add: example_defs)

lemma broken_find_parcel:
  "find (\<lambda>p. parcel_pk p = 5) (LandParcel_objects (db \<lparr>db = broken_id_store, messages = []\<rparr>)) = Some broken_id"
  by (simp add: example_defs)

lemma farm_find_no_parcel:
  "find (\<lambda>p. parcel_pk p = 99) (LandParcel_objects (db farm_site)) = None"
  by (simp add: example_defs)

lemma np1_fields:
  "parcel_fields np1 =
     [(''Parcel ID'', [Lit ''NP-001'']),
      (''Total Area'', [Fmt [] 10, Lit '' hectares'']),
      (''Cultivated Area'', [Fmt [] (15 / 2), Lit '' hectares'']),
      (''Soil Type'', [Lit ''Loamy'']),
      (''Land Holder'', [Lit ''Asha'']),
      (''Region'', [Lit ''North''])]"
  by (simp add: parcel_fields_def get_soil_type_display_def SOIL_TYPES_def example_defs)

text \<open>
  The amended claim C7 in the farm store, for the summary report, for parcel 1, for a
  parcel whose identifier holds a line feed, and for a parcel that does not exist.
\<close>

theorem without_reportlab_witness:
  "\<not> REPORTLAB_AVAILABLE without_reportlab
   \<and> download_analysis_report without_reportlab farm_site ''summary'' =
       (Redirect ''analysis_reports'' None,
        \<lparr>db = farm_store,
         messages = [(''error'', [Lit ''PDF generation is not available. Please install ReportLab.''])]\<rparr>)
   \<and> download_parcel_report without_reportlab farm_site 1 =
       (CsvResponse ''parcel_NP-001_report.csv''
          [[PStr ''Field'', PStr ''Value''],
           [PStr ''Parcel ID'', PText [Lit ''NP-001'']],
           [PStr ''Total Area'', PText [Fmt [] 10, Lit '' hectares'']],
           [PStr ''Cultivated Area'', PText [Fmt [] (15 / 2), Lit '' hectares'']],
           [PStr ''Soil Type'', PText [Lit ''Loamy'']],
           [PStr ''Land Holder'', PText [Lit ''Asha'']],
           [PStr ''Region'', PText [Lit ''North'']]],
        farm_site)
   \<and> fst (download_parcel_report without_reportlab \<lparr>db = broken_id_store, messages = []\<rparr> 5)
       = Redirect ''land_parcel_detail'' (Some 5)
   \<and> download_parcel_report without_reportlab farm_site 99 =
       (Redirect ''land_parcel_detail'' (Some 99),
        \<lparr>db = farm_store,
         messages = [(''error'', [Lit ''Error generating parcel report: '',
                                  Lit ''No LandParcel matches the given query.''])]\<rparr>)"
proof -
  have h: "\<not> REPORTLAB_AVAILABLE without_reportlab"
    by (simp add: example_defs)
  have ok: "\<not> has_newline (parcel_id np1)"
    by (simp add: np1_def has_newline_def)
  have bad: "has_newline (parcel_id broken_id)"
    by (simp add: broken_id_def has_newline_def)
  have id: "parcel_id np1 = ''NP-001''"
    by (simp add: np1_def)
  show ?thesis
    using h
      without_reportlab [OF h, of farm_site "''summary''" 1 np1]
      without_reportlab [OF h, of "\<lparr>db = broken_id_store, messages = []\<rparr>" "''summary''" 5 broken_id]
      without_reportlab [OF h, of farm_site "''summary''" 99 np1]
      farm_find_parcel broken_find_parcel farm_find_no_parcel ok bad
    by (simp add: np1_fields id messages_error_def farm_site_def)
qed


section \<open>An unknown report type\<close>

text \<open>
  Claim C8, as stated, fails: a report type with a line feed in it is none of the five
  known ones, and with ReportLab at hand, accepting every paragraph and building every
  story, the view answers it with a redirect, not with a document: the header of the
  response is refused.
\<close>

theorem unknown_report_type_counterexample:
  "[CHR ''a'', CHR 0x0A, CHR ''b''] \<notin> set report_types
   \<and> fst (download_analysis_report with_reportlab farm_site [CHR ''a'', CHR 0x0A, CHR ''b''])
       = Redirect ''analysis_reports'' None
   \<and> \<not> is_download (fst (download_analysis_report with_reportlab farm_site [CHR ''a'', CHR 0x0A, CHR ''b'']))"
  by (simp add: download_analysis_report_def analysis_report_pdf_def content_disposition_def
      has_newline_def report_types_def Let_def with_reportlab_def split: option.splits)

text \<open>
  Claim C8, amended.  For a report type that is none of the five known ones: when
  ReportLab is available, accepts the title paragraph and builds the story, and neither
  the report type nor the date holds a line break, the answer is a PDF download whose
  story is the title and the date of every report followed by the single paragraph
  \<open>Invalid report type selected.\<close>, and nothing is queued; in every other case the
  answer is a redirect to the reports page, with one error message queued and the store
  as it was.
\<close>

theorem unknown_report_type:
  assumes "report_type \<notin> set report_types"
  shows "(REPORTLAB_AVAILABLE e
          \<and> paragraph_error e (report_title report_type) = None
          \<and> build_error e (report_head e report_type
                             @ [Paragraph [Lit ''Invalid report type selected.''] CustomNormal]) = None
          \<and> \<not> has_newline report_type \<and> \<not> has_newline (now_compact e) \<longrightarrow>
          download_analysis_report e s report_type =
            (PdfResponse (''agriculture_report_'' @ report_type @ ''_'' @ now_compact e @ ''.pdf'')
               (report_head e report_type
                  @ [Paragraph [Lit ''Invalid report type selected.''] CustomNormal]), s))
       \<and> (\<not> (REPORTLAB_AVAILABLE e
              \<and> paragraph_error e (report_title report_type) = None
              \<and> build_error e (report_head e report_type
                                 @ [Paragraph [Lit ''Invalid report type selected.''] CustomNormal]) = None
              \<and> \<not> has_newline report_type \<and> \<not> has_newline (now_compact e)) \<longrightarrow>
          fst (download_analysis_report e s report_type) = Redirect ''analysis_reports'' None
          \<and> db (snd (download_analysis_report e s report_type)) = db s
          \<and> length (messages (snd (download_analysis_report e s report_type)))
              = Suc (length (messages s)))"
proof -
  have story: "report_story e (db s) report_type =
      report_head e report_type @ [Paragraph [Lit ''Invalid report type selected.''] CustomNormal]"
    using assms by (simp add: report_story_def report_types_def Let_def)
  show ?thesis
    by (auto simp: download_analysis_report_def analysis_report_pdf_def content_disposition_def
        has_newline_Cons has_newline_append has_newline_Nil story messages_error_def Let_def
        split: option.splits)
qed

text \<open>
  The amended claim C8 at the report type \<open>weekly\<close>, and at a report type with a line
  feed in it.
\<close>

theorem unknown_report_type_witness:
  "''weekly'' \<notin> set report_types
   \<and> download_analysis_report with_reportlab farm_site ''weekly'' =
     (PdfResponse ''agriculture_report_weekly_20261104.pdf''
        [Paragraph [Lit ''Agricultural Analysis Report - '', Titled ''weekly''] CustomTitle,
         Spacer 1 20,
         Paragraph [Lit ''Generated on: November 04, 2026''] CustomNormal,
         Spacer 1 30,
         Paragraph [Lit ''Invalid report type selected.''] CustomNormal],
      farm_site)
   \<and> [CHR ''w'', CHR 0x0A] \<notin> set report_types
   \<and> fst (download_analysis_report with_reportlab farm_site [CHR ''w'', CHR 0x0A])
       = Redirect ''analysis_reports'' None
   \<and> length (messages (snd (download_analysis_report with_reportlab farm_site [CHR ''w'', CHR 0x0A]))) = 1"
proof -
  have h1: "''weekly'' \<notin> set report_types"
    by (simp add: report_types_def)
  have h2: "[CHR ''w'', CHR 0x0A] \<notin> set report_types"
    by (simp add: report_types_def)
  have ok: "\<not> has_newline ''weekly''" "\<not> has_newline (now_compact with_reportlab)"
    by (simp_all add: has_newline_def with_reportlab_def)
  have bad: "has_newline [CHR ''w'', CHR 0x0A]"
    by (simp add: has_newline_def)
  have env: "REPORTLAB_AVAILABLE with_reportlab" "paragraph_error with_reportlab t = None"
    "build_error with_reportlab story = None" for t story
    by (simp_all add: with_reportlab_def)
  have empty: "messages farm_site = []"
    by (simp add: farm_site_def)
  show ?thesis
    using h1 h2 ok bad env empty
      unknown_report_type [OF h1, of with_reportlab farm_site]
      unknown_report_type [OF h2, of with_reportlab farm_site]
    by (simp add: report_head_def report_title_def with_reportlab_def)
qed


section \<open>Yield per hectare\<close>










section \<open>An unknown export type\<close>

text \<open>
  Claim C10.  For a data type that is none of the four known ones, the export answers
  with status 400 and the JSON object \<open>{"error": "Invalid data type"}\<close>, without an
  attachment, and the site, the entity store with it, is as it was.
\<close>

theorem export_invalid_data_type:
  assumes "data_type \<notin> set data_types"
  shows "export_data e s data_type fmt =
           (JsonResponse 400 (PDict [(''error'', PStr ''Invalid data type'')]) None, s)"
  using assms by (simp add: export_data_def data_types_def)

text \<open>
  Claim C10 at the data type \<open>land_holders\<close>.
\<close>

theorem export_invalid_data_type_witness:
  "''land_holders'' \<notin> set data_types
   \<and> export_data with_reportlab farm_site ''land_holders'' (Some ''csv'') =
       (JsonResponse 400 (PDict [(''error'', PStr ''Invalid data type'')]) None, farm_site)"
proof -
  have h: "''land_holders'' \<notin> set data_types"
    by (simp add: data_types_def)
  show ?thesis
    using h export_invalid_data_type [OF h, of with_reportlab farm_site "Some ''csv''"]
    by simp
qed

end
